theory Spec2Isabelle
  imports Main "HOL-Library.Word" "HOL-Library.Sublist"
begin

section \<open>bluescan: controller normalization, mode dispatch and fault handling\<close>

text \<open>
  A shallow embedding of \<^verbatim>\<open>src/bluescan/__main__.py\<close>: the functions
  \<^verbatim>\<open>prepare_hci\<close>, \<^verbatim>\<open>clean\<close> and \<^verbatim>\<open>main\<close>.
  Everything the Python code does to the outside world (shell commands, HCI commands,
  log lines, prints, calls into the scan engines) is appended to a trace of events, in
  program order. Everything the outside world answers (exit status of a shell command,
  status of an HCI command, what a scan engine returns or raises) is read from an
  environment record. Exceptions are values: a program returns \<open>Inl e\<close> when the Python
  code raises \<open>e\<close>, and \<open>Inr x\<close> when it returns \<open>x\<close>.
\<close>

subsection \<open>Values, exceptions, events\<close>

text \<open>
  Modelled from the spec: \<^verbatim>\<open>ControllerErrorCodes\<close> is a table of the library
  \<^verbatim>\<open>bthci\<close>, not under src. The source names two of its codes, \<^verbatim>\<open>SUCCESS\<close>
  (the spec's Success) and \<^verbatim>\<open>COMMAND_DISALLOWED\<close> (the spec's Benign); every other
  code is \<open>OTHER n\<close> (the spec's Fatal class).
\<close>

datatype ControllerErrorCodes = SUCCESS | COMMAND_DISALLOWED | OTHER nat

text \<open>The event object an HCI command returns: its status, and for
  \<^verbatim>\<open>read_bd_addr\<close> the six address bytes.\<close>

record cmd_complete =
  status :: ControllerErrorCodes
  bd_addr :: "8 word list"

datatype hci_command =
    inquiry_cancel
  | exit_periodic_inquiry_mode
  | write_scan_enable
  | le_set_advertising_enable
  | le_set_scan_enable bool bool
  | set_event_filter nat
  | read_bd_addr

text \<open>The values found in the parsed command line, and passed on to the scan engines.\<close>

datatype pyval = PyNone | PyBool bool | PyInt int | PyStr string | PyList "string list"

fun truthy :: "pyval \<Rightarrow> bool" where
  "truthy PyNone = False"
| "truthy (PyBool b) = b"
| "truthy (PyInt n) = (n \<noteq> 0)"
| "truthy (PyStr s) = (s \<noteq> [])"
| "truthy (PyList xs) = (xs \<noteq> [])"

text \<open>\<^verbatim>\<open>'{}'.format(v)\<close> for the values that occur as an interface name.\<close>

fun py_str :: "pyval \<Rightarrow> string" where
  "py_str (PyStr s) = s"
| "py_str PyNone = ''None''"
| "py_str (PyBool b) = (if b then ''True'' else ''False'')"
| "py_str _ = ''?''"

text \<open>The dictionary \<^verbatim>\<open>args\<close> of docopt: every option is a key.\<close>

type_synonym argdict = "string \<Rightarrow> pyval"

text \<open>A scan result object: its \<^verbatim>\<open>type\<close> attribute and its content.\<close>

record scan_result =
  rtype :: string
  content :: string

text \<open>The exception classes the code raises, catches or lets through. The message of
  an exception is its \<^verbatim>\<open>str(e)\<close>. \<^verbatim>\<open>UnicodeDecodeError\<close> is a subclass of
  \<^verbatim>\<open>ValueError\<close>; no other class here is a subclass of \<^verbatim>\<open>RuntimeError\<close> or
  \<^verbatim>\<open>ValueError\<close>.\<close>

datatype exc =
    RuntimeError string
  | ValueError string
  | UnicodeDecodeError string
  | BTLEException string
  | PluginInstallError string
  | KeyboardInterrupt
  | SystemExit int
  | HciError string
  | CalledProcessError string
  | TimeoutExpired string
  | IsADirectoryError "string list"
  | NotADirectoryError "string list"
  | FileNotFoundError "string list"
  | UnboundLocalError string
  | TypeError string
  | AttributeError string
  | OtherError string

datatype level = DEBUG | INFO | WARNING | ERROR

datatype event =
    Shell string nat
  | Helper string pyval
  | HciOpen string
  | HciCmd hci_command
  | HciClose
  | Log level string
  | Print string
  | Traceback
  | Ext string "pyval list"
  | Scan string "pyval list"
  | ResultPrint scan_result
  | ResultStore scan_result

subsection \<open>The file system\<close>

text \<open>
  A path is the list of its components below the root, as \<^verbatim>\<open>PosixPath\<close> joins
  them with \<^verbatim>\<open>/\<close>. The file system is an association list from paths to what is
  there. \<^verbatim>\<open>os.remove\<close> unlinks anything that is not a directory.
\<close>

datatype kind = RegularFile | Directory

type_synonym path = "string list"
type_synonym filesystem = "(path \<times> kind) list"

definition children :: "filesystem \<Rightarrow> path \<Rightarrow> path list" where
  "children fsys p = remdups [q. (q, k) \<leftarrow> fsys, q \<noteq> [], butlast q = p]"

subsection \<open>State, environment, programs\<close>

record state =
  trace :: "event list"
  fs :: filesystem
  args_var :: "argdict option"

text \<open>
  The answers of the collaborators. \<open>r_check_output cmd timeout\<close> is what
  \<^verbatim>\<open>subprocess.check_output(cmd, stderr=STDOUT, timeout=timeout, shell=True)\<close> does:
  the captured output, or \<^verbatim>\<open>CalledProcessError\<close> or \<^verbatim>\<open>TimeoutExpired\<close>.
  \<open>r_status_text st\<close> is
  \<^verbatim>\<open>"0x{:02x} {}".format(st, ControllerErrorCodes[st].name)\<close>.
  \<open>r_result_print x\<close> and \<open>r_result_store x\<close> are what the methods \<^verbatim>\<open>print()\<close> and
  \<^verbatim>\<open>store()\<close> of the scan result \<open>x\<close> do: they return or raise.
  \<open>r_decode_error bs\<close> is the message of the \<^verbatim>\<open>UnicodeDecodeError\<close> that
  \<^verbatim>\<open>bs.decode()\<close> raises.
\<close>

record env =
  r_find_rfkill_devid :: "string \<Rightarrow> exc + int"
  r_check_output :: "string \<Rightarrow> nat \<Rightarrow> exc + string"
  r_HCI :: "string \<Rightarrow> exc + unit"
  r_hci :: "hci_command \<Rightarrow> exc + cmd_complete"
  r_status_text :: "ControllerErrorCodes \<Rightarrow> string"
  r_bd_addr_bytes2str :: "8 word list \<Rightarrow> string"
  r_parse_cmdline :: "exc + argdict"
  r_str_args :: "argdict \<Rightarrow> string"
  r_get_default_hcistr :: "exc + string"
  r_get_microbit_devpaths :: "exc + string list"
  r_ext :: "string \<Rightarrow> pyval list \<Rightarrow> exc + unit"
  r_scan :: "string \<Rightarrow> pyval list \<Rightarrow> exc + scan_result option"
  r_hci_bd_addr :: "pyval \<Rightarrow> exc + string"
  r_blue :: "string \<Rightarrow> string"
  r_result_print :: "scan_result \<Rightarrow> exc + unit"
  r_result_store :: "scan_result \<Rightarrow> exc + unit"
  r_decode_error :: "string \<Rightarrow> string"

type_synonym 'a prog = "state \<Rightarrow> (exc + 'a) \<times> state"

definition ret :: "'a \<Rightarrow> 'a prog" where
  "ret x = (\<lambda>s. (Inr x, s))"

definition raise :: "exc \<Rightarrow> 'a prog" where
  "raise e = (\<lambda>s. (Inl e, s))"

definition bnd :: "'a prog \<Rightarrow> ('a \<Rightarrow> 'b prog) \<Rightarrow> 'b prog" where
  "bnd m f = (\<lambda>s. case m s of (Inl e, s') \<Rightarrow> (Inl e, s') | (Inr x, s') \<Rightarrow> f x s')"

definition seq :: "'a prog \<Rightarrow> 'b prog \<Rightarrow> 'b prog" where
  "seq m k = bnd m (\<lambda>_. k)"

definition try_except :: "'a prog \<Rightarrow> (exc \<Rightarrow> 'a prog) \<Rightarrow> 'a prog" where
  "try_except m h = (\<lambda>s. case m s of (Inl e, s') \<Rightarrow> h e s' | (Inr x, s') \<Rightarrow> (Inr x, s'))"

definition emit :: "event \<Rightarrow> unit prog" where
  "emit ev = (\<lambda>s. (Inr (), s\<lparr>trace := trace s @ [ev]\<rparr>))"

text \<open>A call to a collaborator: the call is recorded, then it returns or raises.\<close>

definition call :: "event \<Rightarrow> (exc + 'a) \<Rightarrow> 'a prog" where
  "call ev r = (\<lambda>s. (r, s\<lparr>trace := trace s @ [ev]\<rparr>))"

definition logger :: "level \<Rightarrow> string \<Rightarrow> unit prog" where
  "logger l msg = emit (Log l msg)"

definition check_output :: "env \<Rightarrow> string \<Rightarrow> nat \<Rightarrow> string prog" where
  "check_output env cmd timeout = call (Shell cmd timeout) (r_check_output env cmd timeout)"

text \<open>\<^verbatim>\<open>HCI(iface)\<close>: the constructor is called; when it returns, a handle is open.\<close>

definition hci_open :: "env \<Rightarrow> string \<Rightarrow> unit prog" where
  "hci_open env iface =
     bnd (call (Helper ''HCI'' (PyStr iface)) (r_HCI env iface)) (\<lambda>_. emit (HciOpen iface))"

definition hci_close :: "unit prog" where
  "hci_close = emit HciClose"

definition hci_send :: "env \<Rightarrow> hci_command \<Rightarrow> cmd_complete prog" where
  "hci_send env c = call (HciCmd c) (r_hci env c)"

subsection \<open>Strings\<close>

text \<open>\<^verbatim>\<open>str.upper()\<close> on ASCII text, \<^verbatim>\<open>'%d' % n\<close>, \<^verbatim>\<open>' '.join\<close> and
  \<^verbatim>\<open>x in s\<close> for strings.\<close>

definition upper_char :: "char \<Rightarrow> char" where
  "upper_char c =
     (case map_of (zip ''abcdefghijklmnopqrstuvwxyz'' ''ABCDEFGHIJKLMNOPQRSTUVWXYZ'') c of
        Some C \<Rightarrow> C
      | None \<Rightarrow> c)"

definition upper :: "string \<Rightarrow> string" where
  "upper s = map upper_char s"

definition digit :: "nat \<Rightarrow> char" where
  "digit d = ''0123456789'' ! d"

fun dec :: "nat \<Rightarrow> string" where
  "dec n = (if n < 10 then [digit n] else dec (n div 10) @ [digit (n mod 10)])"

definition str_int :: "int \<Rightarrow> string" where
  "str_int i = (if i < 0 then ''-'' @ dec (nat (- i)) else dec (nat i))"

fun join :: "string \<Rightarrow> string list \<Rightarrow> string" where
  "join sep [] = []"
| "join sep [x] = x"
| "join sep (x # y # ys) = x @ sep @ join sep (y # ys)"

definition contains :: "string \<Rightarrow> string \<Rightarrow> bool" where
  "contains s x = sublist x s"

text \<open>
  \<^verbatim>\<open>bytes.decode()\<close> with the default codec \<^verbatim>\<open>utf-8\<close> and error mode
  \<^verbatim>\<open>strict\<close>. A byte string is a \<open>string\<close> here, and so is the text it decodes to
  (the text as its UTF-8 bytes): decoding returns the bytes when they are well-formed UTF-8
  and raises \<^verbatim>\<open>UnicodeDecodeError\<close> otherwise. \<open>utf8_scan n lo hi\<close> reads a byte string
  with \<open>n\<close> bytes of the current character still to come, the next of them between
  \<open>lo\<close> and \<open>hi\<close>: no overlong form, no surrogate, nothing above U+10FFFF.
\<close>

fun utf8_scan :: "nat \<Rightarrow> nat \<Rightarrow> nat \<Rightarrow> string \<Rightarrow> bool" where
  "utf8_scan n lo hi [] = (n = 0)"
| "utf8_scan n lo hi (c # cs) =
     (let b = (of_char c :: nat) in
      if n = 0 then
        (if b < 0x80 then utf8_scan 0 0x80 0xBF cs
         else if 0xC2 \<le> b \<and> b \<le> 0xDF then utf8_scan 1 0x80 0xBF cs
         else if b = 0xE0 then utf8_scan 2 0xA0 0xBF cs
         else if (0xE1 \<le> b \<and> b \<le> 0xEC) \<or> b = 0xEE \<or> b = 0xEF then utf8_scan 2 0x80 0xBF cs
         else if b = 0xED then utf8_scan 2 0x80 0x9F cs
         else if b = 0xF0 then utf8_scan 3 0x90 0xBF cs
         else if 0xF1 \<le> b \<and> b \<le> 0xF3 then utf8_scan 3 0x80 0xBF cs
         else if b = 0xF4 then utf8_scan 3 0x80 0x8F cs
         else False)
      else lo \<le> b \<and> b \<le> hi \<and> utf8_scan (n - 1) 0x80 0xBF cs)"

definition utf8_valid :: "string \<Rightarrow> bool" where
  "utf8_valid bs = utf8_scan 0 0x80 0xBF bs"

definition decode :: "env \<Rightarrow> string \<Rightarrow> string prog" where
  "decode env bs =
     (if utf8_valid bs then ret bs else raise (UnicodeDecodeError (r_decode_error env bs)))"

subsection \<open>File operations\<close>

definition path_exists :: "path \<Rightarrow> bool prog" where
  "path_exists p = (\<lambda>s. (Inr (map_of (fs s) p \<noteq> None), s))"

definition iterdir :: "path \<Rightarrow> path list prog" where
  "iterdir p = (\<lambda>s. case map_of (fs s) p of
       None \<Rightarrow> (Inl (FileNotFoundError p), s)
     | Some RegularFile \<Rightarrow> (Inl (NotADirectoryError p), s)
     | Some Directory \<Rightarrow> (Inr (children (fs s) p), s))"

definition os_remove :: "path \<Rightarrow> unit prog" where
  "os_remove q = (\<lambda>s. case map_of (fs s) q of
       None \<Rightarrow> (Inl (FileNotFoundError q), s)
     | Some Directory \<Rightarrow> (Inl (IsADirectoryError q), s)
     | Some RegularFile \<Rightarrow> (Inr (), s\<lparr>fs := filter (\<lambda>(q', k). q' \<noteq> q) (fs s)\<rparr>))"

text \<open>\<^verbatim>\<open>for file in cache_path.iterdir(): os.remove(file)\<close>\<close>

fun remove_each :: "path list \<Rightarrow> unit prog" where
  "remove_each [] = ret ()"
| "remove_each (file # files) = seq (os_remove file) (remove_each files)"

subsection \<open>prepare\_hci\<close>

definition returned :: "string \<Rightarrow> env \<Rightarrow> ControllerErrorCodes \<Rightarrow> string" where
  "returned name env st = name @ '' returned, status: '' @ r_status_text env st"

text \<open>\<^verbatim>\<open>PosixPath('/var/lib/bluetooth/')/local_bd_addr/'cache'\<close>; the address string has
  no \<^verbatim>\<open>/\<close> in it.\<close>

definition cache_path :: "string \<Rightarrow> path" where
  "cache_path local_bd_addr = [''var'', ''lib'', ''bluetooth'', local_bd_addr, ''cache'']"

definition clear_cache :: "string \<Rightarrow> unit prog" where
  "clear_cache local_bd_addr =
     bnd (path_exists (cache_path local_bd_addr)) (\<lambda>ex.
       if ex then bnd (iterdir (cache_path local_bd_addr)) remove_each else ret ())"

text \<open>Lines 29 to 93. The local variable \<^verbatim>\<open>cmd_complete\<close> is bound by every HCI
  command but \<^verbatim>\<open>write_scan_enable\<close>, whose result is dropped (line 60): the test
  of line 61 reads the value bound at line 55.\<close>

definition prepare_hci :: "env \<Rightarrow> string \<Rightarrow> unit prog" where
  "prepare_hci env iface =
     bnd (call (Helper ''find_rfkill_devid'' (PyStr iface)) (r_find_rfkill_devid env iface)) (\<lambda>devid.
     seq (check_output env (''rfkill unblock '' @ str_int devid) 5) (
     seq (check_output env (''hciconfig '' @ iface @ '' up'') 5) (
     seq (check_output env ''systemctl restart bluetooth.service'' 5) (
     seq (hci_open env iface) (
     seq (logger DEBUG ''Sending hci.inquiry_cancel()'') (
     bnd (hci_send env inquiry_cancel) (\<lambda>cmd_complete.
     seq (if status cmd_complete \<notin> {SUCCESS, COMMAND_DISALLOWED}
          then logger WARNING (returned ''hci.inquiry_cancel()'' env (status cmd_complete))
          else ret ()) (
     seq (logger DEBUG ''Sending hci.exit_periodic_inquiry_mode()'') (
     bnd (hci_send env exit_periodic_inquiry_mode) (\<lambda>cmd_complete.
     seq (if status cmd_complete \<notin> {SUCCESS, COMMAND_DISALLOWED}
          then logger WARNING
                 (returned ''hci.exit_periodic_inquiry_mode()'' env (status cmd_complete))
          else ret ()) (
     seq (hci_send env write_scan_enable) (
     seq (if status cmd_complete \<notin> {SUCCESS, COMMAND_DISALLOWED}
          then logger WARNING (returned ''hci.write_scan_enable()'' env (status cmd_complete))
          else ret ()) (
     bnd (hci_send env le_set_advertising_enable) (\<lambda>cmd_complete.
     seq (if status cmd_complete \<notin> {SUCCESS, COMMAND_DISALLOWED}
          then logger WARNING
                 (returned ''hci.le_set_advertising_enable()'' env (status cmd_complete))
          else ret ()) (
     bnd (hci_send env (le_set_scan_enable False True)) (\<lambda>cmd_complete.
     seq (if status cmd_complete \<notin> {SUCCESS, COMMAND_DISALLOWED}
          then logger WARNING (returned ''hci.le_set_scan_enable()'' env (status cmd_complete))
          else ret ()) (
     bnd (hci_send env (set_event_filter 0)) (\<lambda>cmd_complete.
     seq (if status cmd_complete \<noteq> SUCCESS
          then logger WARNING (returned ''hci.set_event_filter()'' env (status cmd_complete))
          else ret ()) (
     bnd (hci_send env read_bd_addr) (\<lambda>cmd_complete.
     bnd (if status cmd_complete \<noteq> SUCCESS
          then raise (RuntimeError (returned ''hci.read_bd_addr()'' env (status cmd_complete)))
          else ret (upper (r_bd_addr_bytes2str env (bd_addr cmd_complete)))) (\<lambda>local_bd_addr.
     seq (clear_cache local_bd_addr)
         hci_close)))))))))))))))))))))"

subsection \<open>clean\<close>

text \<open>Lines 96 to 117. \<^verbatim>\<open>raddr.upper()\<close> is evaluated when the first
  \<^verbatim>\<open>rm\<close> command is built, after the service has been stopped; it raises
  \<^verbatim>\<open>AttributeError\<close> when \<^verbatim>\<open>raddr\<close> is not a string. The output of an
  \<^verbatim>\<open>rm\<close> command that is not empty is decoded (lines 106 and 113), which can raise,
  and then logged.\<close>

definition py_upper :: "pyval \<Rightarrow> string prog" where
  "py_upper v = (case v of PyStr s \<Rightarrow> ret (upper s) | _ \<Rightarrow> raise (AttributeError ''upper''))"

definition clean :: "env \<Rightarrow> string \<Rightarrow> pyval \<Rightarrow> unit prog" where
  "clean env laddr raddr =
     bnd (check_output env
            (join '' '' [''sudo'', ''systemctl'', ''stop'', ''bluetooth.service'']) 60) (\<lambda>output.
     bnd (py_upper raddr) (\<lambda>RADDR.
     bnd (check_output env
            (join '' '' [''sudo'', ''rm'', ''-rf'', ''/var/lib/bluetooth/'' @ laddr @ ''/'' @ RADDR])
            60) (\<lambda>output.
     seq (if output \<noteq> [] then bnd (decode env output) (\<lambda>text. logger INFO text) else ret ()) (
     bnd (py_upper raddr) (\<lambda>RADDR.
     bnd (check_output env
            (join '' '' [''sudo'', ''rm'', ''-rf'',
                         ''/var/lib/bluetooth/'' @ laddr @ ''/'' @ ''cache'' @ ''/'' @ RADDR])
            60) (\<lambda>output.
     seq (if output \<noteq> [] then bnd (decode env output) (\<lambda>text. logger INFO text) else ret ()) (
     bnd (check_output env
            (join '' '' [''sudo'', ''systemctl'', ''start'', ''bluetooth.service'']) 60) (\<lambda>output.
     ret ()))))))))"

subsection \<open>main\<close>

definition newline :: char where
  "newline = CHR 0x0A"

text \<open>The local variable \<^verbatim>\<open>args\<close> of \<^verbatim>\<open>main\<close>: unbound until
  \<^verbatim>\<open>parse_cmdline()\<close> has returned.\<close>

definition get_args :: "argdict prog" where
  "get_args = (\<lambda>s. case args_var s of
       None \<Rightarrow> (Inl (UnboundLocalError ''args''), s)
     | Some a \<Rightarrow> (Inr a, s))"

definition set_args :: "argdict \<Rightarrow> unit prog" where
  "set_args a = (\<lambda>s. (Inr (), s\<lparr>args_var := Some a\<rparr>))"

definition set_arg :: "string \<Rightarrow> pyval \<Rightarrow> unit prog" where
  "set_arg k v = bnd get_args (\<lambda>a. set_args (a(k := v)))"

definition ext :: "env \<Rightarrow> string \<Rightarrow> pyval list \<Rightarrow> unit prog" where
  "ext env name vs = call (Ext name vs) (r_ext env name vs)"

definition scan :: "env \<Rightarrow> string \<Rightarrow> pyval list \<Rightarrow> scan_result option prog" where
  "scan env name vs = call (Scan name vs) (r_scan env name vs)"

text \<open>Lines 160 to 193: the value of \<^verbatim>\<open>scan_result\<close> after the mode has run.\<close>

definition dispatch :: "env \<Rightarrow> argdict \<Rightarrow> scan_result option prog" where
  "dispatch env args =
     (if args ''-m'' = PyStr ''br'' then
        seq (ext env ''BRScanner'' [args ''-i'']) (
          if truthy (args ''--lmp-feature'') then
            seq (ext env ''BRScanner.scan_lmp_feature'' [args ''BD_ADDR'']) (ret None)
          else
            seq (ext env ''BRScanner'' [args ''-i'']) (
            seq (ext env ''BRScanner.inquiry'' [args ''--inquiry-len'']) (ret None)))
      else if args ''-m'' = PyStr ''le'' then
        (if truthy (args ''--adv'') then
           bnd (call (Ext ''get_microbit_devpaths'' []) (r_get_microbit_devpaths env)) (\<lambda>dev_paths.
           seq (ext env ''LeScanner'' [PyList dev_paths]) (
           seq (ext env ''LeScanner.sniff_adv'' [args ''--channel'']) (ret None)))
         else if truthy (args ''--ll-feature'') then
           seq (ext env ''LeScanner'' [args ''-i'']) (
           seq (ext env ''LeScanner.scan_ll_feature''
                  [args ''BD_ADDR'', args ''--addr-type'', args ''--timeout'']) (ret None))
         else if truthy (args ''--smp-feature'') then
           seq (ext env ''LeScanner'' [args ''-i'']) (
           seq (ext env ''LeScanner.detect_pairing_feature''
                  [args ''BD_ADDR'', args ''--addr-type'', args ''--timeout'']) (ret None))
         else
           seq (ext env ''LeScanner'' [args ''-i'']) (
           scan env ''LeScanner.scan_devs''
             [args ''--timeout'', args ''--scan-type'', args ''--sort'']))
      else if args ''-m'' = PyStr ''sdp'' then
        seq (ext env ''SDPScanner'' [args ''-i'']) (
        seq (ext env ''SDPScanner.scan'' [args ''BD_ADDR'']) (ret None))
      else if args ''-m'' = PyStr ''gatt'' then
        seq (ext env ''GattScanner'' [args ''-i'', args ''--io-capability'']) (
        scan env ''GattScanner.scan'' [args ''BD_ADDR'', args ''--addr-type''])
      else if truthy (args ''--clean'') then
        seq (ext env ''BlueScanner'' [args ''-i'']) (
        seq (ext env ''BlueScanner'' [args ''-i'']) (
        bnd (call (Ext ''BlueScanner.hci_bd_addr'' []) (r_hci_bd_addr env (args ''-i''))) (\<lambda>laddr.
        seq (clean env laddr (args ''BD_ADDR'')) (ret None))))
      else
        seq (logger ERROR ''Invalid scan mode'') (ret None))"

text \<open>Lines 194 to 200. \<^verbatim>\<open>scan_result.print()\<close> and \<^verbatim>\<open>scan_result.store()\<close>
  are calls into the engine that made the result: each is recorded when it is made, and it
  returns or raises.\<close>

definition show_result :: "env \<Rightarrow> scan_result option \<Rightarrow> unit prog" where
  "show_result env scan_result =
     (case scan_result of
        None \<Rightarrow> ret ()
      | Some r \<Rightarrow>
          seq (emit (Print [])) (
          seq (emit (Print [])) (
          seq (emit (Print (r_blue env
                 (''----------------'' @ rtype r @ '' Scan Result'' @ ''----------------'')))) (
          seq (call (ResultPrint r) (r_result_print env r))
              (call (ResultStore r) (r_result_store env r))))))"

text \<open>Lines 146 to 158.\<close>

definition normalize :: "env \<Rightarrow> argdict \<Rightarrow> unit prog" where
  "normalize env args =
     (if \<not> truthy (args ''--adv'') then
        seq (if args ''-i'' = PyStr ''The default HCI device'' then
               try_except
                 (bnd (call (Ext ''HCI.get_default_hcistr'' []) (r_get_default_hcistr env))
                    (\<lambda>h. set_arg ''-i'' (PyStr h)))
                 (\<lambda>e. case e of
                    HciError m \<Rightarrow>
                      seq (logger ERROR ''No available HCI device'') (raise (SystemExit (- 1)))
                  | _ \<Rightarrow> raise e)
             else ret ()) (
        bnd get_args (\<lambda>args. prepare_hci env (py_str (args ''-i''))))
      else ret ())"

text \<open>Lines 122 to 200, the body of the \<^verbatim>\<open>try\<close>.\<close>

definition main_try :: "env \<Rightarrow> unit prog" where
  "main_try env =
     bnd (call (Ext ''parse_cmdline'' []) (r_parse_cmdline env)) (\<lambda>args.
     seq (set_args args) (
     seq (logger DEBUG
            (''parse_cmdline() returned'' @ [newline] @ ''    args: '' @ r_str_args env args)) (
     if truthy (args ''--list-installed-plugins'') then ext env ''list_plugins'' []
     else if truthy (args ''--install-plugin'') then
       ext env ''install_plugin'' [args ''--install-plugin'']
     else if truthy (args ''--uninstall-plugin'') then
       ext env ''uninstall_plugin'' [args ''--uninstall-plugin'']
     else if truthy (args ''--run-plugin'') then
       ext env ''run_plugin'' [args ''--run-plugin'', args ''<plugin-opt>'']
     else
       seq (normalize env args) (
       bnd get_args (\<lambda>args.
       bnd (dispatch env args) (show_result env))))))"

text \<open>Lines 202 to 215, the \<^verbatim>\<open>except\<close> clauses. An exception of any other class
  leaves \<^verbatim>\<open>main\<close>.\<close>

definition handler :: "env \<Rightarrow> exc \<Rightarrow> unit prog" where
  "handler env e =
     (case e of
        RuntimeError m \<Rightarrow>
          seq (logger ERROR (''RuntimeError: '' @ m)) (
          seq (emit Traceback) (raise (SystemExit 1)))
      | ValueError m \<Rightarrow>
          seq (logger ERROR (''ValueError: '' @ m)) (
          seq (emit Traceback) (raise (SystemExit 1)))
      | UnicodeDecodeError m \<Rightarrow>
          seq (logger ERROR (''UnicodeDecodeError: '' @ m)) (
          seq (emit Traceback) (raise (SystemExit 1)))
      | BTLEException m \<Rightarrow>
          logger ERROR
            (m @ (if contains m ''le on''
                  then [newline] @ ''No BLE adapter or missing sudo?'' else []))
      | PluginInstallError m \<Rightarrow> logger ERROR (''Failed to install plugin: '' @ m)
      | KeyboardInterrupt \<Rightarrow>
          seq (bnd get_args (\<lambda>args.
                 if args ''-i'' \<noteq> PyNone then
                   (case args ''-i'' of
                      PyStr i \<Rightarrow>
                        bnd (check_output env (join '' '' [''hciconfig'', i, ''reset'']) 60)
                          (\<lambda>output. ret ())
                    | _ \<Rightarrow> raise (TypeError ''join''))
                 else ret ())) (
          seq (emit (Print []))
              (logger INFO (''Canceled'' @ [newline])))
      | _ \<Rightarrow> raise e)"

definition main :: "env \<Rightarrow> unit prog" where
  "main env = try_except (main_try env) (handler env)"

text \<open>The exit status of the process: 0 when \<^verbatim>\<open>main\<close> returns, the argument of
  \<^verbatim>\<open>exit\<close>, and 1 for an exception nobody caught.\<close>

definition exit_code :: "exc + unit \<Rightarrow> int" where
  "exit_code r = (case r of Inr _ \<Rightarrow> 0 | Inl (SystemExit n) \<Rightarrow> n | Inl _ \<Rightarrow> 1)"

definition init :: "filesystem \<Rightarrow> state" where
  "init fsys = \<lparr>trace = [], fs = fsys, args_var = None\<rparr>"

subsection \<open>Reading a trace\<close>

definition returns :: "exc + 'a \<Rightarrow> bool" where
  "returns r = (case r of Inl _ \<Rightarrow> False | Inr _ \<Rightarrow> True)"

definition hci_cmds :: "event list \<Rightarrow> hci_command list" where
  "hci_cmds tr = concat (map (\<lambda>e. case e of HciCmd c \<Rightarrow> [c] | _ \<Rightarrow> []) tr)"

definition warnings :: "event list \<Rightarrow> string list" where
  "warnings tr =
     concat (map (\<lambda>e. case e of Log l m \<Rightarrow> (if l = WARNING then [m] else []) | _ \<Rightarrow> []) tr)"

definition shell_cmds :: "event list \<Rightarrow> (string \<times> nat) list" where
  "shell_cmds tr = concat (map (\<lambda>e. case e of Shell c t \<Rightarrow> [(c, t)] | _ \<Rightarrow> []) tr)"

fun is_handle :: "event \<Rightarrow> bool" where
  "is_handle (HciOpen _) = True"
| "is_handle HciClose = True"
| "is_handle _ = False"

definition handle_events :: "event list \<Rightarrow> event list" where
  "handle_events tr = filter is_handle tr"

fun is_lifecycle :: "event \<Rightarrow> bool" where
  "is_lifecycle (Scan _ _) = True"
| "is_lifecycle (Print _) = True"
| "is_lifecycle (ResultPrint _) = True"
| "is_lifecycle (ResultStore _) = True"
| "is_lifecycle _ = False"

definition rendered :: "event list \<Rightarrow> scan_result list" where
  "rendered tr = concat (map (\<lambda>e. case e of ResultPrint x \<Rightarrow> [x] | _ \<Rightarrow> []) tr)"

definition stored :: "event list \<Rightarrow> scan_result list" where
  "stored tr = concat (map (\<lambda>e. case e of ResultStore x \<Rightarrow> [x] | _ \<Rightarrow> []) tr)"

text \<open>The scan results the engines returned, in the order of the calls.\<close>

definition produced :: "env \<Rightarrow> event list \<Rightarrow> scan_result list" where
  "produced env tr =
     concat (map (\<lambda>e. case e of
                         Scan name vs \<Rightarrow>
                           (case r_scan env name vs of Inr (Some x) \<Rightarrow> [x] | _ \<Rightarrow> [])
                       | _ \<Rightarrow> []) tr)"

text \<open>What \<^verbatim>\<open>main\<close> does with a scan result, lines 196 to 200: two empty lines, the
  header, the call of \<^verbatim>\<open>print()\<close>, and the call of \<^verbatim>\<open>store()\<close> when
  \<^verbatim>\<open>print()\<close> has returned.\<close>

definition rendering :: "env \<Rightarrow> scan_result \<Rightarrow> event list" where
  "rendering env x =
     [Print [], Print [],
      Print (r_blue env (''----------------'' @ rtype x @ '' Scan Result'' @ ''----------------'')),
      ResultPrint x] @
     (if returns (r_result_print env x) then [ResultStore x] else [])"

subsection \<open>Answers of the host and of the controller\<close>

text \<open>The host commands of lines 36 to 41 succeed and \<^verbatim>\<open>HCI(iface)\<close> returns.\<close>

definition host_ready :: "env \<Rightarrow> string \<Rightarrow> bool" where
  "host_ready env iface =
     (case r_find_rfkill_devid env iface of
        Inl _ \<Rightarrow> False
      | Inr devid \<Rightarrow>
          returns (r_check_output env (''rfkill unblock '' @ str_int devid) 5) \<and>
          returns (r_check_output env (''hciconfig '' @ iface @ '' up'') 5) \<and>
          returns (r_check_output env ''systemctl restart bluetooth.service'' 5) \<and>
          returns (r_HCI env iface))"

text \<open>The six commands of lines 48 to 78, in the order of the source.\<close>

definition intermediate_commands :: "hci_command list" where
  "intermediate_commands =
     [inquiry_cancel, exit_periodic_inquiry_mode, write_scan_enable,
      le_set_advertising_enable, le_set_scan_enable False True, set_event_filter 0]"

text \<open>Every HCI command of \<^verbatim>\<open>prepare_hci\<close> returns an event (none raises).\<close>

definition controller_answers :: "env \<Rightarrow> bool" where
  "controller_answers env =
     list_all (\<lambda>c. returns (r_hci env c)) (intermediate_commands @ [read_bd_addr])"

definition status_of :: "env \<Rightarrow> hci_command \<Rightarrow> ControllerErrorCodes" where
  "status_of env c = status (projr (r_hci env c))"

text \<open>The address string of line 85.\<close>

definition local_addr :: "env \<Rightarrow> string" where
  "local_addr env = upper (r_bd_addr_bytes2str env (bd_addr (projr (r_hci env read_bd_addr))))"

text \<open>The name under which the source reports a command in its log messages.\<close>

fun hci_name :: "hci_command \<Rightarrow> string" where
  "hci_name inquiry_cancel = ''hci.inquiry_cancel()''"
| "hci_name exit_periodic_inquiry_mode = ''hci.exit_periodic_inquiry_mode()''"
| "hci_name write_scan_enable = ''hci.write_scan_enable()''"
| "hci_name le_set_advertising_enable = ''hci.le_set_advertising_enable()''"
| "hci_name (le_set_scan_enable _ _) = ''hci.le_set_scan_enable()''"
| "hci_name (set_event_filter _) = ''hci.set_event_filter()''"
| "hci_name read_bd_addr = ''hci.read_bd_addr()''"

text \<open>The five intermediate commands whose result is bound to \<^verbatim>\<open>cmd_complete\<close>,
  and the test the source applies to the status of each (lines 50, 56, 66, 71, 76).\<close>

definition own_status_commands :: "hci_command list" where
  "own_status_commands =
     [inquiry_cancel, exit_periodic_inquiry_mode,
      le_set_advertising_enable, le_set_scan_enable False True, set_event_filter 0]"

definition warns :: "hci_command \<Rightarrow> ControllerErrorCodes \<Rightarrow> bool" where
  "warns c st =
     (if c = set_event_filter 0 then st \<noteq> SUCCESS else st \<notin> {SUCCESS, COMMAND_DISALLOWED})"

text \<open>The events of lines 36 to 80 when every call returns.\<close>

definition warning_if :: "bool \<Rightarrow> string \<Rightarrow> env \<Rightarrow> ControllerErrorCodes \<Rightarrow> event list" where
  "warning_if c name env st = (if c then [Log WARNING (returned name env st)] else [])"

definition normalization_events ::
  "env \<Rightarrow> string \<Rightarrow> int \<Rightarrow> ControllerErrorCodes \<Rightarrow> ControllerErrorCodes \<Rightarrow>
   ControllerErrorCodes \<Rightarrow> ControllerErrorCodes \<Rightarrow> ControllerErrorCodes \<Rightarrow> event list" where
  "normalization_events env iface devid st1 st2 st4 st5 st6 =
     [Helper ''find_rfkill_devid'' (PyStr iface),
      Shell (''rfkill unblock '' @ str_int devid) 5,
      Shell (''hciconfig '' @ iface @ '' up'') 5,
      Shell ''systemctl restart bluetooth.service'' 5,
      Helper ''HCI'' (PyStr iface),
      HciOpen iface,
      Log DEBUG ''Sending hci.inquiry_cancel()'',
      HciCmd inquiry_cancel] @
     warning_if (st1 \<notin> {SUCCESS, COMMAND_DISALLOWED}) ''hci.inquiry_cancel()'' env st1 @
     [Log DEBUG ''Sending hci.exit_periodic_inquiry_mode()'',
      HciCmd exit_periodic_inquiry_mode] @
     warning_if (st2 \<notin> {SUCCESS, COMMAND_DISALLOWED})
       ''hci.exit_periodic_inquiry_mode()'' env st2 @
     [HciCmd write_scan_enable] @
     warning_if (st2 \<notin> {SUCCESS, COMMAND_DISALLOWED}) ''hci.write_scan_enable()'' env st2 @
     [HciCmd le_set_advertising_enable] @
     warning_if (st4 \<notin> {SUCCESS, COMMAND_DISALLOWED})
       ''hci.le_set_advertising_enable()'' env st4 @
     [HciCmd (le_set_scan_enable False True)] @
     warning_if (st5 \<notin> {SUCCESS, COMMAND_DISALLOWED}) ''hci.le_set_scan_enable()'' env st5 @
     [HciCmd (set_event_filter 0)] @
     warning_if (st6 \<noteq> SUCCESS) ''hci.set_event_filter()'' env st6 @
     [HciCmd read_bd_addr]"

subsection \<open>What a program adds to the trace\<close>

text \<open>\<open>effect P m Q\<close>: from any state, \<open>m\<close> only appends to the trace, and \<open>Q\<close> holds of its
  outcome and of the appended events that satisfy \<open>P\<close>.\<close>

definition effect ::
  "(event \<Rightarrow> bool) \<Rightarrow> 'a prog \<Rightarrow> ((exc + 'a) \<Rightarrow> event list \<Rightarrow> bool) \<Rightarrow> bool" where
  "effect P m Q = (\<forall>s. \<exists>tr. trace (snd (m s)) = trace s @ tr \<and> Q (fst (m s)) (filter P tr))"

definition silent :: "(event \<Rightarrow> bool) \<Rightarrow> 'a prog \<Rightarrow> bool" where
  "silent P m = effect P m (\<lambda>r h. h = [])"

subsection \<open>The commands of clean\<close>





subsection \<open>The life of a scan result\<close>

text \<open>The lifecycle events of a call of a scan engine whose result \<^verbatim>\<open>main\<close> keeps: the
  call, and the rendering of what it returned, if it returned a result.\<close>

definition after_scan :: "env \<Rightarrow> string \<Rightarrow> pyval list \<Rightarrow> event list" where
  "after_scan env n vs =
     Scan n vs # (case r_scan env n vs of Inr (Some x) \<Rightarrow> rendering env x | _ \<Rightarrow> [])"

definition kept_scan :: "string \<Rightarrow> bool" where
  "kept_scan n = (n = ''LeScanner.scan_devs'' \<or> n = ''GattScanner.scan'')"

definition lifecycle_ok :: "env \<Rightarrow> event list \<Rightarrow> bool" where
  "lifecycle_ok env h = (h = [] \<or> (\<exists>n vs. kept_scan n \<and> h = after_scan env n vs))"

text \<open>The modes in which \<^verbatim>\<open>main\<close> assigns \<^verbatim>\<open>scan_result\<close>: the LE device scan
  (line 179) and the GATT scan (line 184).\<close>

definition result_mode :: "argdict \<Rightarrow> bool" where
  "result_mode args =
     ((args ''-m'' = PyStr ''le'' \<and> \<not> truthy (args ''--adv'') \<and>
       \<not> truthy (args ''--ll-feature'') \<and> \<not> truthy (args ''--smp-feature'')) \<or>
      args ''-m'' = PyStr ''gatt'')"

text \<open>What \<^verbatim>\<open>dispatch\<close> leaves: no lifecycle event and no result, or one call of an
  engine whose result is kept, and what that call returned or raised.\<close>

definition dispatch_post :: "env \<Rightarrow> (exc + scan_result option) \<Rightarrow> event list \<Rightarrow> bool" where
  "dispatch_post env r h =
     ((h = [] \<and> (\<forall>x. r \<noteq> Inr (Some x))) \<or>
      (\<exists>n vs. kept_scan n \<and> h = [Scan n vs] \<and> r = r_scan env n vs))"

text \<open>A program that never returns a scan result.\<close>

definition no_result :: "scan_result option prog \<Rightarrow> bool" where
  "no_result m = (\<forall>s x. fst (m s) \<noteq> Inr (Some x))"

subsection \<open>Concrete inputs\<close>

text \<open>A host and a controller that answer every call with success, a command line that
  asks for an LE device scan on \<^verbatim>\<open>hci0\<close>, and variations of them.\<close>

definition addr_bytes :: "8 word list" where
  "addr_bytes = [0xAA, 0xBB, 0xCC, 0xDD, 0xEE, 0xFF]"

definition le_scan_args :: argdict where
  "le_scan_args = (\<lambda>_. PyNone)(''-i'' := PyStr ''hci0'', ''-m'' := PyStr ''le'')"

definition calm_env :: env where
  "calm_env =
     \<lparr>r_find_rfkill_devid = (\<lambda>_. Inr 0),
      r_check_output = (\<lambda>_ _. Inr []),
      r_HCI = (\<lambda>_. Inr ()),
      r_hci = (\<lambda>_. Inr \<lparr>status = SUCCESS, bd_addr = addr_bytes\<rparr>),
      r_status_text = (\<lambda>st. case st of SUCCESS \<Rightarrow> ''0x00 SUCCESS''
                                | COMMAND_DISALLOWED \<Rightarrow> ''0x0c COMMAND_DISALLOWED''
                                | OTHER n \<Rightarrow> ''0x03 HARDWARE_FAILURE''),
      r_bd_addr_bytes2str = (\<lambda>_. ''aa:bb:cc:dd:ee:ff''),
      r_parse_cmdline = Inr le_scan_args,
      r_str_args = (\<lambda>_. ''{}''),
      r_get_default_hcistr = Inr ''hci0'',
      r_get_microbit_devpaths = Inr [],
      r_ext = (\<lambda>_ _. Inr ()),
      r_scan = (\<lambda>_ _. Inr (Some \<lparr>rtype = ''LE'', content = ''devices''\<rparr>)),
      r_hci_bd_addr = (\<lambda>_. Inr ''AA:BB:CC:DD:EE:FF''),
      r_blue = (\<lambda>s. s),
      r_result_print = (\<lambda>_. Inr ()),
      r_result_store = (\<lambda>_. Inr ()),
      r_decode_error = (\<lambda>_. ''invalid start byte'')\<rparr>"

definition with_status :: "hci_command \<Rightarrow> ControllerErrorCodes \<Rightarrow> env \<Rightarrow> env" where
  "with_status c st env = env\<lparr>r_hci := (r_hci env)(c := Inr \<lparr>status = st, bd_addr = addr_bytes\<rparr>)\<rparr>"

definition with_shell :: "string \<Rightarrow> exc + string \<Rightarrow> env \<Rightarrow> env" where
  "with_shell cmd r env =
     env\<lparr>r_check_output := (\<lambda>c t. if c = cmd then r else r_check_output env c t)\<rparr>"

definition with_scan :: "exc + scan_result option \<Rightarrow> env \<Rightarrow> env" where
  "with_scan r env = env\<lparr>r_scan := (\<lambda>_ _. r)\<rparr>"

definition with_result_print :: "exc + unit \<Rightarrow> env \<Rightarrow> env" where
  "with_result_print r env = env\<lparr>r_result_print := (\<lambda>_. r)\<rparr>"

definition with_parse :: "exc + argdict \<Rightarrow> env \<Rightarrow> env" where
  "with_parse r env = env\<lparr>r_parse_cmdline := r\<rparr>"

definition with_ext :: "exc + unit \<Rightarrow> env \<Rightarrow> env" where
  "with_ext r env = env\<lparr>r_ext := (\<lambda>_ _. r)\<rparr>"

definition list_plugins_args :: argdict where
  "list_plugins_args = (\<lambda>_. PyNone)(''--list-installed-plugins'' := PyBool True)"

definition ble_message :: string where
  "ble_message = ''Failed to execute management command le on''"

definition cache_dir :: path where
  "cache_dir = [''var'', ''lib'', ''bluetooth'', ''AA:BB:CC:DD:EE:FF'', ''cache'']"

definition fs_files :: filesystem where
  "fs_files =
     [(cache_dir, Directory),
      (cache_dir @ [''11:22:33:44:55:66''], RegularFile),
      (cache_dir @ [''77:88:99:AA:BB:CC''], RegularFile),
      ([''var'', ''lib'', ''bluetooth'', ''AA:BB:CC:DD:EE:FF'', ''settings''], RegularFile)]"

definition fs_subdir :: filesystem where
  "fs_subdir =
     [(cache_dir, Directory),
      (cache_dir @ [''11:22:33:44:55:66''], RegularFile),
      (cache_dir @ [''old''], Directory)]"

definition fs_nested :: filesystem where
  "fs_nested =
     [(cache_dir, Directory),
      (cache_dir @ [''backup''], Directory)]"

section \<open>Properties\<close>

subsection \<open>Running the programs\<close>

lemma if_log:
  "(if c then logger l m else ret ()) = (\<lambda>s. (Inr (), s\<lparr>trace := trace s @ (if c then [Log l m] else [])\<rparr>))"
  by (auto simp: logger_def emit_def ret_def fun_eq_iff)

lemmas run = bnd_def seq_def ret_def raise_def emit_def call_def logger_def check_output_def
  hci_send_def hci_open_def hci_close_def

lemma prepare_hci_run:
  assumes "r_find_rfkill_devid env iface = Inr devid"
    and "r_check_output env (''rfkill unblock '' @ str_int devid) 5 = Inr o1"
    and "r_check_output env (''hciconfig '' @ iface @ '' up'') 5 = Inr o2"
    and "r_check_output env ''systemctl restart bluetooth.service'' 5 = Inr o3"
    and "r_HCI env iface = Inr u"
    and "r_hci env inquiry_cancel = Inr c1"
    and "r_hci env exit_periodic_inquiry_mode = Inr c2"
    and "r_hci env write_scan_enable = Inr c3"
    and "r_hci env le_set_advertising_enable = Inr c4"
    and "r_hci env (le_set_scan_enable False True) = Inr c5"
    and "r_hci env (set_event_filter 0) = Inr c6"
    and "r_hci env read_bd_addr = Inr c7"
  shows "prepare_hci env iface s =
     (if status c7 \<noteq> SUCCESS
      then (Inl (RuntimeError (returned ''hci.read_bd_addr()'' env (status c7))),
            s\<lparr>trace := trace s @ normalization_events env iface devid
                 (status c1) (status c2) (status c4) (status c5) (status c6)\<rparr>)
      else seq (clear_cache (upper (r_bd_addr_bytes2str env (bd_addr c7)))) hci_close
            (s\<lparr>trace := trace s @ normalization_events env iface devid
                 (status c1) (status c2) (status c4) (status c5) (status c6)\<rparr>))"
proof (cases "status c7 = SUCCESS")
  case True
  show ?thesis
    unfolding prepare_hci_def if_log
    using assms True
    by (simp add: run normalization_events_def warning_if_def split del: if_split cong: if_cong)
next
  case False
  show ?thesis
    unfolding prepare_hci_def if_log
    using assms False
    by (simp add: run normalization_events_def warning_if_def split del: if_split cong: if_cong)
qed

lemma prepare_hci_answers:
  assumes "host_ready env iface" and "controller_answers env"
  shows "\<exists>devid. r_find_rfkill_devid env iface = Inr devid \<and> prepare_hci env iface s =
     (if status_of env read_bd_addr \<noteq> SUCCESS
      then (Inl (RuntimeError (returned ''hci.read_bd_addr()'' env (status_of env read_bd_addr))),
            s\<lparr>trace := trace s @ normalization_events env iface devid
                 (status_of env inquiry_cancel) (status_of env exit_periodic_inquiry_mode)
                 (status_of env le_set_advertising_enable)
                 (status_of env (le_set_scan_enable False True))
                 (status_of env (set_event_filter 0))\<rparr>)
      else seq (clear_cache (local_addr env)) hci_close
            (s\<lparr>trace := trace s @ normalization_events env iface devid
                 (status_of env inquiry_cancel) (status_of env exit_periodic_inquiry_mode)
                 (status_of env le_set_advertising_enable)
                 (status_of env (le_set_scan_enable False True))
                 (status_of env (set_event_filter 0))\<rparr>))"
proof -
  from assms(1) obtain devid o1 o2 o3 u where h:
    "r_find_rfkill_devid env iface = Inr devid"
    "r_check_output env (''rfkill unblock '' @ str_int devid) 5 = Inr o1"
    "r_check_output env (''hciconfig '' @ iface @ '' up'') 5 = Inr o2"
    "r_check_output env ''systemctl restart bluetooth.service'' 5 = Inr o3"
    "r_HCI env iface = Inr u"
    by (auto simp: host_ready_def returns_def split: sum.splits)
  from assms(2) obtain c1 c2 c3 c4 c5 c6 c7 where c:
    "r_hci env inquiry_cancel = Inr c1"
    "r_hci env exit_periodic_inquiry_mode = Inr c2"
    "r_hci env write_scan_enable = Inr c3"
    "r_hci env le_set_advertising_enable = Inr c4"
    "r_hci env (le_set_scan_enable False True) = Inr c5"
    "r_hci env (set_event_filter 0) = Inr c6"
    "r_hci env read_bd_addr = Inr c7"
    by (auto simp: controller_answers_def intermediate_commands_def returns_def split: sum.splits)
  show ?thesis
    using prepare_hci_run [OF h c, of s] h(1) c
    by (simp add: status_of_def local_addr_def)
qed

lemma map_of_filter_neq:
  "map_of (filter (\<lambda>(k, v). k \<noteq> q) xs) k' = (if k' = q then None else map_of xs k')"
  by (induction xs) auto

lemma os_remove_cases:
  "os_remove q s =
     (case map_of (fs s) q of
        None \<Rightarrow> (Inl (FileNotFoundError q), s)
      | Some Directory \<Rightarrow> (Inl (IsADirectoryError q), s)
      | Some RegularFile \<Rightarrow> (Inr (), s\<lparr>fs := filter (\<lambda>(q', k). q' \<noteq> q) (fs s)\<rparr>))"
  by (simp add: os_remove_def)

declare remove_each.simps [simp del]

lemma remove_each_Cons:
  "remove_each (q # qs) s =
     (case map_of (fs s) q of
        None \<Rightarrow> (Inl (FileNotFoundError q), s)
      | Some Directory \<Rightarrow> (Inl (IsADirectoryError q), s)
      | Some RegularFile \<Rightarrow> remove_each qs (s\<lparr>fs := filter (\<lambda>(q', k). q' \<noteq> q) (fs s)\<rparr>))"
  by (simp add: remove_each.simps seq_def bnd_def os_remove_def split: option.splits kind.splits)

lemma remove_each_Nil: "remove_each [] s = (Inr (), s)"
  by (simp add: remove_each.simps ret_def)

lemma remove_each_keeps_trace: "trace (snd (remove_each qs s)) = trace s"
  by (induction qs arbitrary: s) (auto simp: remove_each_Cons remove_each_Nil split: option.splits kind.splits)

lemma remove_each_keeps_args: "args_var (snd (remove_each qs s)) = args_var s"
  by (induction qs arbitrary: s) (auto simp: remove_each_Cons remove_each_Nil split: option.splits kind.splits)

lemma remove_each_frame:
  "q' \<notin> set qs \<or> map_of (fs s) q' \<noteq> Some RegularFile \<Longrightarrow>
   map_of (fs (snd (remove_each qs s))) q' = map_of (fs s) q'"
proof (induction qs arbitrary: s)
  case Nil
  then show ?case by (simp add: remove_each_Nil)
next
  case (Cons q qs)
  show ?case
  proof (cases "map_of (fs s) q")
    case None
    then show ?thesis by (simp add: remove_each_Cons)
  next
    case (Some k)
    show ?thesis
    proof (cases k)
      case Directory
      with Some show ?thesis by (simp add: remove_each_Cons)
    next
      case RegularFile
      let ?s = "s\<lparr>fs := filter (\<lambda>(q', k). q' \<noteq> q) (fs s)\<rparr>"
      from Cons.prems Some RegularFile have ne: "q' \<noteq> q" by auto
      then have same: "map_of (fs ?s) q' = map_of (fs s) q'"
        by (simp add: map_of_filter_neq)
      with Cons.prems have "q' \<notin> set qs \<or> map_of (fs ?s) q' \<noteq> Some RegularFile"
        by auto
      then have "map_of (fs (snd (remove_each qs ?s))) q' = map_of (fs ?s) q'"
        by (rule Cons.IH)
      with same Some RegularFile show ?thesis
        by (simp add: remove_each_Cons)
    qed
  qed
qed

lemma remove_each_files:
  "distinct qs \<Longrightarrow> \<forall>q\<in>set qs. map_of (fs s) q = Some RegularFile \<Longrightarrow>
   fst (remove_each qs s) = Inr () \<and>
   fs (snd (remove_each qs s)) = filter (\<lambda>(q', k). q' \<notin> set qs) (fs s)"
proof (induction qs arbitrary: s)
  case Nil
  then show ?case by (simp add: remove_each_Nil)
next
  case (Cons q qs)
  let ?s = "s\<lparr>fs := filter (\<lambda>(q', k). q' \<noteq> q) (fs s)\<rparr>"
  from Cons.prems have q: "map_of (fs s) q = Some RegularFile" by simp
  from Cons.prems have "\<forall>x\<in>set qs. map_of (fs ?s) x = Some RegularFile"
    by (auto simp: map_of_filter_neq)
  moreover from Cons.prems have "distinct qs" by simp
  ultimately have IH: "fst (remove_each qs ?s) = Inr () \<and>
     fs (snd (remove_each qs ?s)) = filter (\<lambda>(q', k). q' \<notin> set qs) (fs ?s)"
    by (rule Cons.IH [rotated])
  have "filter (\<lambda>(q', k). q' \<notin> set qs) (filter (\<lambda>(q', k). q' \<noteq> q) (fs s)) =
        filter (\<lambda>(q', k). q' \<notin> set (q # qs)) (fs s)"
    by (auto intro: filter_cong)
  with IH q show ?case
    by (simp add: remove_each_Cons)
qed

lemma remove_each_directory:
  "\<forall>q\<in>set qs. map_of (fs s) q \<noteq> None \<Longrightarrow> distinct qs \<Longrightarrow>
   \<exists>q\<in>set qs. map_of (fs s) q = Some Directory \<Longrightarrow>
   \<exists>q'\<in>set qs. map_of (fs s) q' = Some Directory \<and>
      fst (remove_each qs s) = Inl (IsADirectoryError q')"
proof (induction qs arbitrary: s)
  case Nil
  then show ?case by simp
next
  case (Cons q qs)
  from Cons.prems(1) obtain k where k: "map_of (fs s) q = Some k" by auto
  show ?case
  proof (cases k)
    case Directory
    with k show ?thesis by (auto simp: remove_each_Cons)
  next
    case RegularFile
    let ?s = "s\<lparr>fs := filter (\<lambda>(q', k). q' \<noteq> q) (fs s)\<rparr>"
    from Cons.prems(2) have nq: "q \<notin> set qs" and d: "distinct qs" by simp_all
    from nq have same: "\<forall>x\<in>set qs. map_of (fs ?s) x = map_of (fs s) x"
      by (auto simp: map_of_filter_neq)
    with Cons.prems(1) have a: "\<forall>x\<in>set qs. map_of (fs ?s) x \<noteq> None" by simp
    from Cons.prems(3) k RegularFile same
    have b: "\<exists>x\<in>set qs. map_of (fs ?s) x = Some Directory" by auto
    from Cons.IH [OF a d b] obtain q' where
      "q' \<in> set qs" "map_of (fs ?s) q' = Some Directory"
      "fst (remove_each qs ?s) = Inl (IsADirectoryError q')" by blast
    with same k RegularFile show ?thesis
      by (auto simp: remove_each_Cons)
  qed
qed

lemma children_iff:
  "q \<in> set (children fsys p) \<longleftrightarrow> q \<noteq> [] \<and> butlast q = p \<and> map_of fsys q \<noteq> None"
  by (force simp: children_def map_of_eq_None_iff image_iff)

lemma distinct_children: "distinct (children fsys p)"
  by (simp add: children_def)

lemma clear_cache_run:
  "clear_cache a s =
     (case map_of (fs s) (cache_path a) of
        None \<Rightarrow> (Inr (), s)
      | Some RegularFile \<Rightarrow> (Inl (NotADirectoryError (cache_path a)), s)
      | Some Directory \<Rightarrow> remove_each (children (fs s) (cache_path a)) s)"
  by (simp add: clear_cache_def bnd_def path_exists_def iterdir_def ret_def
        split: option.splits kind.splits)

lemma clear_cache_keeps_trace: "trace (snd (clear_cache a s)) = trace s"
  by (simp add: clear_cache_run remove_each_keeps_trace split: option.splits kind.splits)

lemma clear_cache_frame:
  "butlast q \<noteq> cache_path a \<or> map_of (fs s) q \<noteq> Some RegularFile \<Longrightarrow>
   map_of (fs (snd (clear_cache a s))) q = map_of (fs s) q"
  by (auto simp: clear_cache_run children_iff intro!: remove_each_frame
        split: option.splits kind.splits)

lemma clear_cache_files:
  assumes "map_of (fs s) (cache_path a) = Some Directory"
    and "\<forall>q\<in>set (children (fs s) (cache_path a)). map_of (fs s) q = Some RegularFile"
  shows "fst (clear_cache a s) = Inr () \<and> children (fs (snd (clear_cache a s))) (cache_path a) = []"
proof -
  let ?qs = "children (fs s) (cache_path a)"
  from remove_each_files [OF distinct_children assms(2)]
  have r: "fst (remove_each ?qs s) = Inr ()"
    and f: "fs (snd (remove_each ?qs s)) = filter (\<lambda>(q', k). q' \<notin> set ?qs) (fs s)"
    by simp_all
  let ?f = "filter (\<lambda>(q', k). q' \<notin> set ?qs) (fs s)"
  have nomem: "q \<notin> set (children ?f (cache_path a))" for q
  proof
    assume "q \<in> set (children ?f (cache_path a))"
    then have 1: "q \<noteq> []" "butlast q = cache_path a" "map_of ?f q \<noteq> None"
      by (simp_all add: children_iff)
    from 1(3) obtain k where "(q, k) \<in> set ?f"
      by (auto simp: map_of_eq_None_iff)
    then have 2: "q \<notin> set ?qs" and 3: "(q, k) \<in> set (fs s)" by auto
    from 3 have "map_of (fs s) q \<noteq> None"
      by (auto dest: weak_map_of_SomeI)
    with 1 have "q \<in> set ?qs" by (simp add: children_iff)
    with 2 show False by simp
  qed
  have "children ?f (cache_path a) = []"
  proof (cases "children ?f (cache_path a)")
    case Nil
    then show ?thesis .
  next
    case (Cons x xs)
    then have "x \<in> set (children ?f (cache_path a))" by simp
    with nomem show ?thesis by blast
  qed
  with r f assms(1) show ?thesis
    by (simp add: clear_cache_run)
qed

lemma remove_each_trace_upd:
  "remove_each qs (s\<lparr>trace := t\<rparr>) =
     (fst (remove_each qs s), (snd (remove_each qs s))\<lparr>trace := t\<rparr>)"
proof (induction qs arbitrary: s)
  case Nil
  show ?case by (simp add: remove_each_Nil)
next
  case (Cons q qs)
  show ?case
  proof (cases "map_of (fs s) q")
    case None
    then show ?thesis by (simp add: remove_each_Cons)
  next
    case (Some k)
    show ?thesis
    proof (cases k)
      case Directory
      with Some show ?thesis by (simp add: remove_each_Cons)
    next
      case RegularFile
      let ?f = "filter (\<lambda>(q', k). q' \<noteq> q) (fs s)"
      have "remove_each (q # qs) (s\<lparr>trace := t\<rparr>) = remove_each qs ((s\<lparr>trace := t\<rparr>)\<lparr>fs := ?f\<rparr>)"
        using Some RegularFile by (simp add: remove_each_Cons)
      also have "(s\<lparr>trace := t\<rparr>)\<lparr>fs := ?f\<rparr> = (s\<lparr>fs := ?f\<rparr>)\<lparr>trace := t\<rparr>"
        by (cases s) simp
      also have "remove_each qs ((s\<lparr>fs := ?f\<rparr>)\<lparr>trace := t\<rparr>) =
                 (fst (remove_each qs (s\<lparr>fs := ?f\<rparr>)),
                       (snd (remove_each qs (s\<lparr>fs := ?f\<rparr>)))\<lparr>trace := t\<rparr>)"
        by (rule Cons.IH)
      also have "\<dots> = (fst (remove_each (q # qs) s), (snd (remove_each (q # qs) s))\<lparr>trace := t\<rparr>)"
        using Some RegularFile by (simp add: remove_each_Cons)
      finally show ?thesis .
    qed
  qed
qed

lemma clear_cache_trace_upd:
  "clear_cache a (s\<lparr>trace := t\<rparr>) =
     (fst (clear_cache a s), (snd (clear_cache a s))\<lparr>trace := t\<rparr>)"
  by (simp add: clear_cache_run remove_each_trace_upd split: option.splits kind.splits)

lemma clear_cache_directory:
  assumes "map_of (fs s) (cache_path a) = Some Directory"
    and "q \<in> set (children (fs s) (cache_path a))"
    and "map_of (fs s) q = Some Directory"
  shows "\<exists>q'. butlast q' = cache_path a \<and> map_of (fs s) q' = Some Directory \<and>
           fst (clear_cache a s) = Inl (IsADirectoryError q')"
proof -
  let ?qs = "children (fs s) (cache_path a)"
  have "\<forall>x\<in>set ?qs. map_of (fs s) x \<noteq> None" by (simp add: children_iff)
  moreover from assms have "\<exists>x\<in>set ?qs. map_of (fs s) x = Some Directory" by blast
  ultimately obtain q' where "q' \<in> set ?qs" "map_of (fs s) q' = Some Directory"
    "fst (remove_each ?qs s) = Inl (IsADirectoryError q')"
    using remove_each_directory [OF _ distinct_children] by blast
  with assms(1) show ?thesis
    by (auto simp: clear_cache_run children_iff)
qed

lemma seq_close:
  "seq (clear_cache a) hci_close s =
     (case fst (clear_cache a s) of
        Inl e \<Rightarrow> (Inl e, snd (clear_cache a s))
      | Inr _ \<Rightarrow> (Inr (), (snd (clear_cache a s))\<lparr>trace := trace s @ [HciClose]\<rparr>))"
proof (cases "clear_cache a s")
  case (Pair r s')
  with clear_cache_keeps_trace [of a s] have "trace s' = trace s" by simp
  with Pair show ?thesis
    by (cases r) (simp_all add: seq_def bnd_def hci_close_def emit_def)
qed

lemma prepare_hci_summary:
  assumes "host_ready env iface" and "controller_answers env"
  shows "\<exists>devid. r_find_rfkill_devid env iface = Inr devid \<and>
     fst (prepare_hci env iface s) =
       (if status_of env read_bd_addr \<noteq> SUCCESS
        then Inl (RuntimeError (returned ''hci.read_bd_addr()'' env (status_of env read_bd_addr)))
        else fst (clear_cache (local_addr env) s)) \<and>
     fs (snd (prepare_hci env iface s)) =
       (if status_of env read_bd_addr \<noteq> SUCCESS then fs s
        else fs (snd (clear_cache (local_addr env) s))) \<and>
     args_var (snd (prepare_hci env iface s)) = args_var s \<and>
     trace (snd (prepare_hci env iface s)) =
       trace s @
       normalization_events env iface devid
         (status_of env inquiry_cancel) (status_of env exit_periodic_inquiry_mode)
         (status_of env le_set_advertising_enable)
         (status_of env (le_set_scan_enable False True))
         (status_of env (set_event_filter 0)) @
       (if fst (prepare_hci env iface s) = Inr () then [HciClose] else [])"
proof -
  from prepare_hci_answers [OF assms, of s] obtain devid where
    d: "r_find_rfkill_devid env iface = Inr devid" and
    run: "prepare_hci env iface s =
     (if status_of env read_bd_addr \<noteq> SUCCESS
      then (Inl (RuntimeError (returned ''hci.read_bd_addr()'' env (status_of env read_bd_addr))),
            s\<lparr>trace := trace s @ normalization_events env iface devid
                 (status_of env inquiry_cancel) (status_of env exit_periodic_inquiry_mode)
                 (status_of env le_set_advertising_enable)
                 (status_of env (le_set_scan_enable False True))
                 (status_of env (set_event_filter 0))\<rparr>)
      else seq (clear_cache (local_addr env)) hci_close
            (s\<lparr>trace := trace s @ normalization_events env iface devid
                 (status_of env inquiry_cancel) (status_of env exit_periodic_inquiry_mode)
                 (status_of env le_set_advertising_enable)
                 (status_of env (le_set_scan_enable False True))
                 (status_of env (set_event_filter 0))\<rparr>))"
    by blast
  have k: "args_var (snd (clear_cache a s)) = args_var s" for a
    by (simp add: clear_cache_run remove_each_keeps_args split: option.splits kind.splits)
  show ?thesis
  proof (cases "status_of env read_bd_addr = SUCCESS")
    case False
    with run d show ?thesis by simp
  next
    case True
    with run d k [of "local_addr env"] clear_cache_keeps_trace [of "local_addr env" s]
    show ?thesis
      by (cases "fst (clear_cache (local_addr env) s)")
         (simp_all add: seq_close clear_cache_trace_upd)
  qed
qed

lemma hci_cmds_simps:
  "hci_cmds [] = []"
  "hci_cmds (tr @ tr') = hci_cmds tr @ hci_cmds tr'"
  "hci_cmds (e # tr) = (case e of HciCmd c \<Rightarrow> [c] | _ \<Rightarrow> []) @ hci_cmds tr"
  "hci_cmds (warning_if b n env st) = []"
  by (simp_all add: hci_cmds_def warning_if_def)

lemma warnings_simps:
  "warnings [] = []"
  "warnings (tr @ tr') = warnings tr @ warnings tr'"
  "warnings (e # tr) = (case e of Log l m \<Rightarrow> (if l = WARNING then [m] else []) | _ \<Rightarrow> []) @ warnings tr"
  "warnings (warning_if b n env st) = (if b then [returned n env st] else [])"
  by (simp_all add: warnings_def warning_if_def)

lemma hci_cmds_normalization:
  "hci_cmds (normalization_events env iface devid st1 st2 st4 st5 st6) =
     intermediate_commands @ [read_bd_addr]"
  by (simp add: normalization_events_def hci_cmds_simps intermediate_commands_def)

lemma warnings_normalization:
  "warnings (normalization_events env iface devid st1 st2 st4 st5 st6) =
     (if st1 \<notin> {SUCCESS, COMMAND_DISALLOWED} then [returned ''hci.inquiry_cancel()'' env st1] else []) @
     (if st2 \<notin> {SUCCESS, COMMAND_DISALLOWED} then [returned ''hci.exit_periodic_inquiry_mode()'' env st2] else []) @
     (if st2 \<notin> {SUCCESS, COMMAND_DISALLOWED} then [returned ''hci.write_scan_enable()'' env st2] else []) @
     (if st4 \<notin> {SUCCESS, COMMAND_DISALLOWED} then [returned ''hci.le_set_advertising_enable()'' env st4] else []) @
     (if st5 \<notin> {SUCCESS, COMMAND_DISALLOWED} then [returned ''hci.le_set_scan_enable()'' env st5] else []) @
     (if st6 \<noteq> SUCCESS then [returned ''hci.set_event_filter()'' env st6] else [])"
  by (simp add: normalization_events_def warnings_simps split del: if_split cong: if_cong)

lemmas concrete = calm_env_def with_status_def with_shell_def with_scan_def
  host_ready_def controller_answers_def intermediate_commands_def returns_def
  status_of_def local_addr_def str_int_def digit_def upper_def upper_char_def
  addr_bytes_def returned_def init_def cache_dir_def

subsection \<open>The final address read\<close>

text \<open>
  Claim C3. When the host commands succeed and every HCI command returns an event, the
  status of \<^verbatim>\<open>read_bd_addr\<close> decides: any status other than \<open>SUCCESS\<close>, the
  code \<open>COMMAND_DISALLOWED\<close> included, makes \<^verbatim>\<open>prepare_hci\<close> raise
  \<^verbatim>\<open>RuntimeError\<close> with the file system untouched; with \<open>SUCCESS\<close> the outcome
  is the outcome of clearing the cache directory
  \<^verbatim>\<open>/var/lib/bluetooth/<address>/cache\<close> of the address read, and no path outside
  that directory changes.
\<close>
theorem read_bd_addr_failure_is_fatal:
  assumes "host_ready env iface" and "controller_answers env"
  shows "(status_of env read_bd_addr \<noteq> SUCCESS \<longrightarrow>
            fst (prepare_hci env iface s) =
              Inl (RuntimeError (returned ''hci.read_bd_addr()'' env (status_of env read_bd_addr))) \<and>
            fs (snd (prepare_hci env iface s)) = fs s) \<and>
         (status_of env read_bd_addr = SUCCESS \<longrightarrow>
            fst (prepare_hci env iface s) = fst (clear_cache (local_addr env) s) \<and>
            (\<forall>q. butlast q \<noteq> [''var'', ''lib'', ''bluetooth'', local_addr env, ''cache''] \<longrightarrow>
                 map_of (fs (snd (prepare_hci env iface s))) q = map_of (fs s) q))"
proof -
  from prepare_hci_answers [OF assms, of s] obtain devid where
    run: "prepare_hci env iface s =
     (if status_of env read_bd_addr \<noteq> SUCCESS
      then (Inl (RuntimeError (returned ''hci.read_bd_addr()'' env (status_of env read_bd_addr))),
            s\<lparr>trace := trace s @ normalization_events env iface devid
                 (status_of env inquiry_cancel) (status_of env exit_periodic_inquiry_mode)
                 (status_of env le_set_advertising_enable)
                 (status_of env (le_set_scan_enable False True))
                 (status_of env (set_event_filter 0))\<rparr>)
      else seq (clear_cache (local_addr env)) hci_close
            (s\<lparr>trace := trace s @ normalization_events env iface devid
                 (status_of env inquiry_cancel) (status_of env exit_periodic_inquiry_mode)
                 (status_of env le_set_advertising_enable)
                 (status_of env (le_set_scan_enable False True))
                 (status_of env (set_event_filter 0))\<rparr>))"
    by blast
  show ?thesis
  proof (cases "status_of env read_bd_addr = SUCCESS")
    case False
    with run show ?thesis by simp
  next
    case True
    have "cache_path (local_addr env) = [''var'', ''lib'', ''bluetooth'', local_addr env, ''cache'']"
      by (simp add: cache_path_def)
    with True run show ?thesis
      by (auto simp: seq_close clear_cache_trace_upd clear_cache_frame split: sum.splits)
  qed
qed

theorem read_bd_addr_failure_is_fatal_witness:
  "host_ready (with_status read_bd_addr COMMAND_DISALLOWED calm_env) ''hci0'' \<and>
   controller_answers (with_status read_bd_addr COMMAND_DISALLOWED calm_env) \<and>
   status_of (with_status read_bd_addr COMMAND_DISALLOWED calm_env) read_bd_addr = COMMAND_DISALLOWED \<and>
   fst (prepare_hci (with_status read_bd_addr COMMAND_DISALLOWED calm_env) ''hci0'' (init fs_files)) =
     Inl (RuntimeError ''hci.read_bd_addr() returned, status: 0x0c COMMAND_DISALLOWED'') \<and>
   fs (snd (prepare_hci (with_status read_bd_addr COMMAND_DISALLOWED calm_env) ''hci0'' (init fs_files))) =
     fs_files \<and>
   host_ready calm_env ''hci0'' \<and> controller_answers calm_env \<and>
   status_of calm_env read_bd_addr = SUCCESS \<and>
   map_of (fs (snd (prepare_hci calm_env ''hci0'' (init fs_files))))
     [''var'', ''lib'', ''bluetooth'', ''AA:BB:CC:DD:EE:FF'', ''settings''] = Some RegularFile"
proof -
  let ?E = "with_status read_bd_addr COMMAND_DISALLOWED calm_env"
  have h: "host_ready ?E ''hci0''" by (simp add: concrete)
  have c: "controller_answers ?E" by (simp add: concrete)
  have h0: "host_ready calm_env ''hci0''" by (simp add: concrete)
  have c0: "controller_answers calm_env" by (simp add: concrete)
  have la: "local_addr calm_env = ''AA:BB:CC:DD:EE:FF''" by (simp add: concrete)
  show ?thesis
    using read_bd_addr_failure_is_fatal [OF h c, of "init fs_files"]
      read_bd_addr_failure_is_fatal [OF h0 c0, of "init fs_files"] h c h0 c0 la
    by (simp add: concrete fs_files_def)
qed

subsection \<open>Intermediate commands with a fatal status\<close>

text \<open>
  A controller whose \<^verbatim>\<open>inquiry_cancel\<close> answers with a status that is neither
  \<open>SUCCESS\<close> nor \<open>COMMAND_DISALLOWED\<close>: \<^verbatim>\<open>prepare_hci\<close> returns normally and has
  sent all six later commands.
\<close>
theorem fatal_intermediate_status_aborts_counterexample:
  "status_of (with_status inquiry_cancel (OTHER 3) calm_env) inquiry_cancel \<notin> {SUCCESS, COMMAND_DISALLOWED} \<and>
   fst (prepare_hci (with_status inquiry_cancel (OTHER 3) calm_env) ''hci0'' (init [])) = Inr () \<and>
   hci_cmds (trace (snd (prepare_hci (with_status inquiry_cancel (OTHER 3) calm_env) ''hci0'' (init [])))) =
     [inquiry_cancel, exit_periodic_inquiry_mode, write_scan_enable, le_set_advertising_enable,
      le_set_scan_enable False True, set_event_filter 0, read_bd_addr]"
proof -
  let ?E = "with_status inquiry_cancel (OTHER 3) calm_env"
  have h: "host_ready ?E ''hci0''" by (simp add: concrete)
  have c: "controller_answers ?E" by (simp add: concrete)
  have cc: "clear_cache a (init []) = (Inr (), init [])" for a
    by (simp add: clear_cache_run init_def)
  from prepare_hci_summary [OF h c, of "init []"] cc show ?thesis
    by (simp add: concrete hci_cmds_simps hci_cmds_normalization intermediate_commands_def)
qed

text \<open>
  Claim C1, as the code has it. When the host commands succeed and every HCI command returns
  an event, all seven HCI commands are sent, in the order of the source, whatever the
  statuses are. A status outside \<open>{SUCCESS, COMMAND_DISALLOWED}\<close> of a command whose result
  is bound to \<^verbatim>\<open>cmd_complete\<close> is reported in a warning that carries that status.
  The outcome of \<^verbatim>\<open>prepare_hci\<close> depends on the status of \<^verbatim>\<open>read_bd_addr\<close>
  and on the cache directory only.
\<close>

theorem intermediate_status_never_aborts:
  assumes "host_ready env iface" and "controller_answers env"
  shows "hci_cmds (trace (snd (prepare_hci env iface s))) =
           hci_cmds (trace s) @ intermediate_commands @ [read_bd_addr] \<and>
         (\<forall>c\<in>set own_status_commands.
            status_of env c \<notin> {SUCCESS, COMMAND_DISALLOWED} \<longrightarrow>
            returned (hci_name c) env (status_of env c) \<in>
              set (warnings (trace (snd (prepare_hci env iface s))))) \<and>
         fst (prepare_hci env iface s) =
           (if status_of env read_bd_addr = SUCCESS then fst (clear_cache (local_addr env) s)
            else Inl (RuntimeError (returned ''hci.read_bd_addr()'' env (status_of env read_bd_addr))))"
proof -
  from prepare_hci_summary [OF assms, of s] obtain devid where
    r: "fst (prepare_hci env iface s) =
       (if status_of env read_bd_addr \<noteq> SUCCESS
        then Inl (RuntimeError (returned ''hci.read_bd_addr()'' env (status_of env read_bd_addr)))
        else fst (clear_cache (local_addr env) s))"
    and t: "trace (snd (prepare_hci env iface s)) =
       trace s @
       normalization_events env iface devid
         (status_of env inquiry_cancel) (status_of env exit_periodic_inquiry_mode)
         (status_of env le_set_advertising_enable)
         (status_of env (le_set_scan_enable False True))
         (status_of env (set_event_filter 0)) @
       (if fst (prepare_hci env iface s) = Inr () then [HciClose] else [])"
    by blast
  have 1: "hci_cmds (trace (snd (prepare_hci env iface s))) =
           hci_cmds (trace s) @ intermediate_commands @ [read_bd_addr]"
    by (simp add: t hci_cmds_simps hci_cmds_normalization)
  have 2: "\<forall>c\<in>set own_status_commands.
            status_of env c \<notin> {SUCCESS, COMMAND_DISALLOWED} \<longrightarrow>
            returned (hci_name c) env (status_of env c) \<in>
              set (warnings (trace (snd (prepare_hci env iface s))))"
    by (simp add: t warnings_simps warnings_normalization own_status_commands_def)
  from 1 2 r show ?thesis by simp
qed

theorem intermediate_status_never_aborts_witness:
  "host_ready (with_status (set_event_filter 0) (OTHER 3) calm_env) ''hci0'' \<and>
   controller_answers (with_status (set_event_filter 0) (OTHER 3) calm_env) \<and>
   status_of (with_status (set_event_filter 0) (OTHER 3) calm_env) (set_event_filter 0) = OTHER 3 \<and>
   hci_cmds (trace (snd (prepare_hci (with_status (set_event_filter 0) (OTHER 3) calm_env) ''hci0'' (init [])))) =
     intermediate_commands @ [read_bd_addr] \<and>
   ''hci.set_event_filter() returned, status: 0x03 HARDWARE_FAILURE'' \<in>
     set (warnings (trace (snd (prepare_hci (with_status (set_event_filter 0) (OTHER 3) calm_env) ''hci0'' (init [])))))"
proof -
  let ?E = "with_status (set_event_filter 0) (OTHER 3) calm_env"
  have h: "host_ready ?E ''hci0''" by (simp add: concrete)
  have c: "controller_answers ?E" by (simp add: concrete)
  from intermediate_status_never_aborts [OF h c, of "init []"] h c show ?thesis
    by (simp add: concrete own_status_commands_def hci_cmds_simps)
qed

subsection \<open>Which status is examined, and what is logged\<close>

text \<open>
  A controller whose \<^verbatim>\<open>inquiry_cancel\<close> answers \<open>COMMAND_DISALLOWED\<close>:
  \<^verbatim>\<open>prepare_hci\<close> returns normally and logs no warning at all.
\<close>
theorem benign_status_is_logged_counterexample:
  "status_of (with_status inquiry_cancel COMMAND_DISALLOWED calm_env) inquiry_cancel = COMMAND_DISALLOWED \<and>
   fst (prepare_hci (with_status inquiry_cancel COMMAND_DISALLOWED calm_env) ''hci0'' (init [])) = Inr () \<and>
   warnings (trace (snd (prepare_hci (with_status inquiry_cancel COMMAND_DISALLOWED calm_env) ''hci0'' (init [])))) = []"
proof -
  let ?E = "with_status inquiry_cancel COMMAND_DISALLOWED calm_env"
  have h: "host_ready ?E ''hci0''" by (simp add: concrete)
  have c: "controller_answers ?E" by (simp add: concrete)
  have cc: "clear_cache a (init []) = (Inr (), init [])" for a
    by (simp add: clear_cache_run init_def)
  from prepare_hci_summary [OF h c, of "init []"] cc show ?thesis
    by (simp add: concrete warnings_simps warnings_normalization)
qed

lemma not_write_scan_enable:
  "\<not> prefix ''hci.write_scan_enable()'' (returned ''hci.inquiry_cancel()'' env st)"
  "\<not> prefix ''hci.write_scan_enable()'' (returned ''hci.exit_periodic_inquiry_mode()'' env st)"
  "\<not> prefix ''hci.write_scan_enable()'' (returned ''hci.le_set_advertising_enable()'' env st)"
  "\<not> prefix ''hci.write_scan_enable()'' (returned ''hci.le_set_scan_enable()'' env st)"
  "\<not> prefix ''hci.write_scan_enable()'' (returned ''hci.set_event_filter()'' env st)"
  "prefix ''hci.write_scan_enable()'' (returned ''hci.write_scan_enable()'' env st)"
  by (simp_all add: returned_def)

text \<open>
  Claim C4, as the code has it. When the host commands succeed and every HCI command returns
  an event, the warnings other than the one for \<^verbatim>\<open>write_scan_enable\<close> are, in
  order, one per command whose result is bound to \<^verbatim>\<open>cmd_complete\<close> and whose own
  status fails the test of the source: not in \<open>{SUCCESS, COMMAND_DISALLOWED}\<close> for the first
  four, not \<open>SUCCESS\<close> for \<^verbatim>\<open>set_event_filter\<close>. Each warning carries the status of
  its own command, and all seven commands are sent whatever the statuses are.
\<close>

theorem warnings_follow_own_status:
  assumes "host_ready env iface" and "controller_answers env"
  shows "filter (\<lambda>m. \<not> prefix (hci_name write_scan_enable) m)
           (warnings (trace (snd (prepare_hci env iface s)))) =
         filter (\<lambda>m. \<not> prefix (hci_name write_scan_enable) m) (warnings (trace s)) @
         concat (map (\<lambda>c. if warns c (status_of env c)
                           then [returned (hci_name c) env (status_of env c)] else [])
                   own_status_commands) \<and>
         hci_cmds (trace (snd (prepare_hci env iface s))) =
           hci_cmds (trace s) @ intermediate_commands @ [read_bd_addr]"
proof -
  from prepare_hci_summary [OF assms, of s] obtain devid where
    t: "trace (snd (prepare_hci env iface s)) =
       trace s @
       normalization_events env iface devid
         (status_of env inquiry_cancel) (status_of env exit_periodic_inquiry_mode)
         (status_of env le_set_advertising_enable)
         (status_of env (le_set_scan_enable False True))
         (status_of env (set_event_filter 0)) @
       (if fst (prepare_hci env iface s) = Inr () then [HciClose] else [])"
    by blast
  have 1: "hci_cmds (trace (snd (prepare_hci env iface s))) =
           hci_cmds (trace s) @ intermediate_commands @ [read_bd_addr]"
    by (simp add: t hci_cmds_simps hci_cmds_normalization)
  have 2: "filter (\<lambda>m. \<not> prefix (hci_name write_scan_enable) m)
           (warnings (trace (snd (prepare_hci env iface s)))) =
         filter (\<lambda>m. \<not> prefix (hci_name write_scan_enable) m) (warnings (trace s)) @
         concat (map (\<lambda>c. if warns c (status_of env c)
                           then [returned (hci_name c) env (status_of env c)] else [])
                   own_status_commands)"
    by (simp add: t warnings_simps warnings_normalization own_status_commands_def warns_def
          not_write_scan_enable)
  from 1 2 show ?thesis by simp
qed

theorem warnings_follow_own_status_witness:
  "host_ready (with_status (set_event_filter 0) COMMAND_DISALLOWED
     (with_status le_set_advertising_enable (OTHER 3) calm_env)) ''hci0'' \<and>
   controller_answers (with_status (set_event_filter 0) COMMAND_DISALLOWED
     (with_status le_set_advertising_enable (OTHER 3) calm_env)) \<and>
   filter (\<lambda>m. \<not> prefix (hci_name write_scan_enable) m)
     (warnings (trace (snd (prepare_hci (with_status (set_event_filter 0) COMMAND_DISALLOWED
        (with_status le_set_advertising_enable (OTHER 3) calm_env)) ''hci0'' (init []))))) =
     [''hci.le_set_advertising_enable() returned, status: 0x03 HARDWARE_FAILURE'',
      ''hci.set_event_filter() returned, status: 0x0c COMMAND_DISALLOWED'']"
proof -
  let ?E = "with_status (set_event_filter 0) COMMAND_DISALLOWED
     (with_status le_set_advertising_enable (OTHER 3) calm_env)"
  have h: "host_ready ?E ''hci0''" by (simp add: concrete)
  have c: "controller_answers ?E" by (simp add: concrete)
  from warnings_follow_own_status [OF h c, of "init []"] h c show ?thesis
    by (simp add: concrete own_status_commands_def warns_def warnings_simps)
qed

lemma handle_events_simps:
  "handle_events [] = []"
  "handle_events (tr @ tr') = handle_events tr @ handle_events tr'"
  "handle_events (e # tr) = (if is_handle e then [e] else []) @ handle_events tr"
  "handle_events (warning_if b n env st) = []"
  by (simp_all add: handle_events_def warning_if_def)

lemma handle_events_normalization:
  "handle_events (normalization_events env iface devid st1 st2 st4 st5 st6) = [HciOpen iface]"
  by (simp add: normalization_events_def handle_events_simps)

lemma cache_path_calm: "cache_path ''AA:BB:CC:DD:EE:FF'' = cache_dir"
  by (simp add: cache_path_def cache_dir_def)

text \<open>
  The status of \<^verbatim>\<open>write_scan_enable\<close> itself is never examined (line 60 drops the
  event): when it alone answers with a fatal status, no warning is logged.
\<close>

lemma write_scan_enable_status_is_dropped:
  "status_of (with_status write_scan_enable (OTHER 3) calm_env) write_scan_enable = OTHER 3 \<and>
   warnings (trace (snd (prepare_hci (with_status write_scan_enable (OTHER 3) calm_env)
     ''hci0'' (init [])))) = []"
proof -
  let ?E = "with_status write_scan_enable (OTHER 3) calm_env"
  have h: "host_ready ?E ''hci0''" by (simp add: concrete)
  have c: "controller_answers ?E" by (simp add: concrete)
  from prepare_hci_summary [OF h c, of "init []"] show ?thesis
    by (simp add: concrete warnings_simps warnings_normalization)
qed

subsection \<open>Clearing the cache\<close>

text \<open>
  Every HCI command answers \<open>SUCCESS\<close>, and the cache directory holds a regular file and a
  subdirectory: \<^verbatim>\<open>prepare_hci\<close> raises \<^verbatim>\<open>IsADirectoryError\<close> and the
  subdirectory is still in the cache directory.
\<close>
theorem cache_emptied_counterexample:
  "list_all (\<lambda>c. status_of calm_env c = SUCCESS) (intermediate_commands @ [read_bd_addr]) \<and>
   fst (prepare_hci calm_env ''hci0'' (init fs_subdir)) = Inl (IsADirectoryError (cache_dir @ [''old''])) \<and>
   children (fs (snd (prepare_hci calm_env ''hci0'' (init fs_subdir)))) cache_dir = [cache_dir @ [''old'']]"
proof -
  have h: "host_ready calm_env ''hci0''" by (simp add: concrete)
  have c: "controller_answers calm_env" by (simp add: concrete)
  have la: "local_addr calm_env = ''AA:BB:CC:DD:EE:FF''" by (simp add: concrete)
  have cc: "clear_cache ''AA:BB:CC:DD:EE:FF'' (init fs_subdir) =
    (Inl (IsADirectoryError (cache_dir @ [''old''])),
     (init fs_subdir)\<lparr>fs := [(cache_dir, Directory), (cache_dir @ [''old''], Directory)]\<rparr>)"
    by (simp add: clear_cache_run cache_path_calm init_def fs_subdir_def children_def
          remove_each_Cons remove_each_Nil cache_dir_def)
  have ch: "children [(cache_dir, Directory), (cache_dir @ [''old''], Directory)] cache_dir =
      [cache_dir @ [''old'']]"
    by (simp add: children_def cache_dir_def)
  from prepare_hci_summary [OF h c, of "init fs_subdir"] la cc ch show ?thesis
    by (simp add: concrete intermediate_commands_def)
qed

text \<open>
  Claim C6, as the code has it. When the host commands succeed, every HCI command returns an
  event, \<^verbatim>\<open>read_bd_addr\<close> answers \<open>SUCCESS\<close>, and the cache path of the address read
  is absent or is a directory whose entries are all files that \<^verbatim>\<open>os.remove\<close> can
  unlink, then \<^verbatim>\<open>prepare_hci\<close> returns normally, the handle is opened and closed once,
  and the cache directory has no entry afterwards; without a cache directory the file system
  is left as it was.
\<close>

theorem cache_of_files_is_emptied:
  assumes "host_ready env iface" and "controller_answers env"
    and "status_of env read_bd_addr = SUCCESS"
    and "map_of (fs s) (cache_path (local_addr env)) \<noteq> Some RegularFile"
    and "\<forall>q\<in>set (children (fs s) (cache_path (local_addr env))). map_of (fs s) q = Some RegularFile"
  shows "fst (prepare_hci env iface s) = Inr () \<and>
         handle_events (trace (snd (prepare_hci env iface s))) =
           handle_events (trace s) @ [HciOpen iface, HciClose] \<and>
         (map_of (fs s) (cache_path (local_addr env)) = Some Directory \<longrightarrow>
            children (fs (snd (prepare_hci env iface s))) (cache_path (local_addr env)) = []) \<and>
         (map_of (fs s) (cache_path (local_addr env)) = None \<longrightarrow>
            fs (snd (prepare_hci env iface s)) = fs s)"
proof -
  let ?p = "cache_path (local_addr env)"
  from prepare_hci_summary [OF assms(1,2), of s] assms(3) obtain devid where
    r: "fst (prepare_hci env iface s) = fst (clear_cache (local_addr env) s)"
    and f: "fs (snd (prepare_hci env iface s)) = fs (snd (clear_cache (local_addr env) s))"
    and t: "trace (snd (prepare_hci env iface s)) =
       trace s @
       normalization_events env iface devid
         (status_of env inquiry_cancel) (status_of env exit_periodic_inquiry_mode)
         (status_of env le_set_advertising_enable)
         (status_of env (le_set_scan_enable False True))
         (status_of env (set_event_filter 0)) @
       (if fst (prepare_hci env iface s) = Inr () then [HciClose] else [])"
    by auto
  have ok: "fst (clear_cache (local_addr env) s) = Inr ()"
  proof (cases "map_of (fs s) ?p")
    case None
    then show ?thesis by (simp add: clear_cache_run)
  next
    case (Some k)
    with assms(4) have "map_of (fs s) ?p = Some Directory" by (cases k) simp_all
    from clear_cache_files [OF this assms(5)] show ?thesis by simp
  qed
  have d: "map_of (fs s) ?p = Some Directory \<longrightarrow>
      children (fs (snd (clear_cache (local_addr env) s))) ?p = []"
    using clear_cache_files [OF _ assms(5)] by simp
  have n: "map_of (fs s) ?p = None \<longrightarrow> fs (snd (clear_cache (local_addr env) s)) = fs s"
    by (simp add: clear_cache_run)
  from r f t ok d n show ?thesis
    by (simp add: handle_events_simps handle_events_normalization)
qed

theorem cache_of_files_is_emptied_witness:
  "host_ready calm_env ''hci0'' \<and> controller_answers calm_env \<and>
   status_of calm_env read_bd_addr = SUCCESS \<and>
   map_of fs_files cache_dir = Some Directory \<and>
   children fs_files cache_dir =
     [cache_dir @ [''11:22:33:44:55:66''], cache_dir @ [''77:88:99:AA:BB:CC'']] \<and>
   fst (prepare_hci calm_env ''hci0'' (init fs_files)) = Inr () \<and>
   children (fs (snd (prepare_hci calm_env ''hci0'' (init fs_files)))) cache_dir = [] \<and>
   fst (prepare_hci calm_env ''hci0'' (init [])) = Inr () \<and>
   fs (snd (prepare_hci calm_env ''hci0'' (init []))) = []"
proof -
  have h: "host_ready calm_env ''hci0''" by (simp add: concrete)
  have c: "controller_answers calm_env" by (simp add: concrete)
  have st: "status_of calm_env read_bd_addr = SUCCESS" by (simp add: concrete)
  have la: "cache_path (local_addr calm_env) = cache_dir"
    by (simp add: concrete cache_path_def)
  have ch: "children fs_files cache_dir =
     [cache_dir @ [''11:22:33:44:55:66''], cache_dir @ [''77:88:99:AA:BB:CC'']]"
    by (simp add: children_def fs_files_def cache_dir_def)
  have d: "map_of fs_files cache_dir = Some Directory"
    by (simp add: fs_files_def)
  have a4: "map_of (fs (init fs_files)) (cache_path (local_addr calm_env)) \<noteq> Some RegularFile"
    by (simp add: la init_def d)
  have a5: "\<forall>q\<in>set (children (fs (init fs_files)) (cache_path (local_addr calm_env))).
      map_of (fs (init fs_files)) q = Some RegularFile"
    by (simp add: la init_def ch) (simp add: fs_files_def cache_dir_def)
  have b4: "map_of (fs (init [])) (cache_path (local_addr calm_env)) \<noteq> Some RegularFile"
    by (simp add: init_def)
  have b5: "\<forall>q\<in>set (children (fs (init [])) (cache_path (local_addr calm_env))).
      map_of (fs (init [])) q = Some RegularFile"
    by (simp add: init_def children_def)
  from cache_of_files_is_emptied [OF h c st a4 a5] cache_of_files_is_emptied [OF h c st b4 b5]
    h c st ch d la
  show ?thesis
    by (simp add: init_def)
qed

text \<open>
  Claim C10. When the host commands succeed, every HCI command returns an event,
  \<^verbatim>\<open>read_bd_addr\<close> answers \<open>SUCCESS\<close> and the cache directory has an entry that is a
  directory, \<^verbatim>\<open>prepare_hci\<close> raises \<^verbatim>\<open>IsADirectoryError\<close> for an entry of the
  cache directory that is a directory. No \<^verbatim>\<open>except\<close> clause of \<^verbatim>\<open>main\<close> takes
  this exception. The handle has been opened and is not closed. Nothing but regular files
  directly inside the cache directory has been removed.
\<close>
theorem subdirectory_in_cache_aborts:
  assumes "host_ready env iface" and "controller_answers env"
    and "status_of env read_bd_addr = SUCCESS"
    and "map_of (fs s) (cache_path (local_addr env)) = Some Directory"
    and "q \<in> set (children (fs s) (cache_path (local_addr env)))"
    and "map_of (fs s) q = Some Directory"
  shows "\<exists>d. butlast d = cache_path (local_addr env) \<and> map_of (fs s) d = Some Directory \<and>
           fst (prepare_hci env iface s) = Inl (IsADirectoryError d) \<and>
           handler env (IsADirectoryError d) = raise (IsADirectoryError d) \<and>
           handle_events (trace (snd (prepare_hci env iface s))) =
             handle_events (trace s) @ [HciOpen iface] \<and>
           (\<forall>x. map_of (fs s) x \<noteq> Some RegularFile \<or> butlast x \<noteq> cache_path (local_addr env) \<longrightarrow>
                 map_of (fs (snd (prepare_hci env iface s))) x = map_of (fs s) x)"
proof -
  from prepare_hci_summary [OF assms(1,2), of s] assms(3) obtain devid where
    r: "fst (prepare_hci env iface s) = fst (clear_cache (local_addr env) s)"
    and f: "fs (snd (prepare_hci env iface s)) = fs (snd (clear_cache (local_addr env) s))"
    and t: "trace (snd (prepare_hci env iface s)) =
       trace s @
       normalization_events env iface devid
         (status_of env inquiry_cancel) (status_of env exit_periodic_inquiry_mode)
         (status_of env le_set_advertising_enable)
         (status_of env (le_set_scan_enable False True))
         (status_of env (set_event_filter 0)) @
       (if fst (prepare_hci env iface s) = Inr () then [HciClose] else [])"
    by auto
  from clear_cache_directory [OF assms(4,5,6)] obtain d where
    d: "butlast d = cache_path (local_addr env)" "map_of (fs s) d = Some Directory"
       "fst (clear_cache (local_addr env) s) = Inl (IsADirectoryError d)"
    by blast
  have fr: "\<forall>x. map_of (fs s) x \<noteq> Some RegularFile \<or> butlast x \<noteq> cache_path (local_addr env) \<longrightarrow>
                 map_of (fs (snd (clear_cache (local_addr env) s))) x = map_of (fs s) x"
    using clear_cache_frame [of _ "local_addr env" s] by blast
  have hd: "handler env (IsADirectoryError d) = raise (IsADirectoryError d)"
    by (simp add: handler_def)
  from r f t d fr hd show ?thesis
    by (auto simp: handle_events_simps handle_events_normalization)
qed

theorem subdirectory_in_cache_aborts_witness:
  "host_ready calm_env ''hci0'' \<and> controller_answers calm_env \<and>
   status_of calm_env read_bd_addr = SUCCESS \<and>
   map_of fs_nested cache_dir = Some Directory \<and>
   cache_dir @ [''backup''] \<in> set (children fs_nested cache_dir) \<and>
   map_of fs_nested (cache_dir @ [''backup'']) = Some Directory \<and>
   (\<exists>d. fst (prepare_hci calm_env ''hci0'' (init fs_nested)) = Inl (IsADirectoryError d)) \<and>
   handle_events (trace (snd (prepare_hci calm_env ''hci0'' (init fs_nested)))) = [HciOpen ''hci0'']"
proof -
  have h: "host_ready calm_env ''hci0''" by (simp add: concrete)
  have c: "controller_answers calm_env" by (simp add: concrete)
  have st: "status_of calm_env read_bd_addr = SUCCESS" by (simp add: concrete)
  have la: "cache_path (local_addr calm_env) = cache_dir"
    by (simp add: concrete cache_path_def)
  have d: "map_of fs_nested cache_dir = Some Directory"
    by (simp add: fs_nested_def)
  have ch: "cache_dir @ [''backup''] \<in> set (children fs_nested cache_dir)"
    by (simp add: children_def fs_nested_def cache_dir_def)
  have k: "map_of fs_nested (cache_dir @ [''backup'']) = Some Directory"
    by (simp add: fs_nested_def cache_dir_def)
  have a4: "map_of (fs (init fs_nested)) (cache_path (local_addr calm_env)) = Some Directory"
    by (simp add: la init_def d)
  have a5: "cache_dir @ [''backup''] \<in>
      set (children (fs (init fs_nested)) (cache_path (local_addr calm_env)))"
    by (simp add: la init_def ch)
  have a6: "map_of (fs (init fs_nested)) (cache_dir @ [''backup'']) = Some Directory"
    by (simp add: init_def k)
  from subdirectory_in_cache_aborts [OF h c st a4 a5 a6] h c st d ch k
  show ?thesis
    by (auto simp: init_def handle_events_simps)
qed

subsection \<open>A calculus for what a program adds to the trace\<close>

lemma effectI:
  "(\<And>s. \<exists>tr. trace (snd (m s)) = trace s @ tr \<and> Q (fst (m s)) (filter P tr)) \<Longrightarrow> effect P m Q"
  by (simp add: effect_def)

lemma effect_ret: "Q (Inr x) [] \<Longrightarrow> effect P (ret x) Q"
  by (simp add: effect_def ret_def)

lemma effect_raise: "Q (Inl e) [] \<Longrightarrow> effect P (raise e) Q"
  by (simp add: effect_def raise_def)

lemma effect_emit: "Q (Inr ()) (filter P [ev]) \<Longrightarrow> effect P (emit ev) Q"
  by (simp add: effect_def emit_def)

lemma effect_call: "Q r (filter P [ev]) \<Longrightarrow> effect P (call ev r) Q"
  by (simp add: effect_def call_def)

lemma effect_weaken:
  "effect P m Q \<Longrightarrow> (\<And>r h. Q r h \<Longrightarrow> Q' r h) \<Longrightarrow> effect P m Q'"
  by (fastforce simp: effect_def)

lemma effect_bnd:
  assumes m: "effect P m Q1"
    and f: "\<And>x. effect P (f x) (Q2 x)"
    and l: "\<And>e h. Q1 (Inl e) h \<Longrightarrow> Q (Inl e) h"
    and r: "\<And>x h1 r h2. Q1 (Inr x) h1 \<Longrightarrow> Q2 x r h2 \<Longrightarrow> Q r (h1 @ h2)"
  shows "effect P (bnd m f) Q"
proof (rule effectI)
  fix s
  from m obtain tr1 where 1: "trace (snd (m s)) = trace s @ tr1" "Q1 (fst (m s)) (filter P tr1)"
    by (auto simp: effect_def)
  show "\<exists>tr. trace (snd (bnd m f s)) = trace s @ tr \<and> Q (fst (bnd m f s)) (filter P tr)"
  proof (cases "m s")
    case (Pair a s1)
    show ?thesis
    proof (cases a)
      case (Inl e)
      with Pair 1 l show ?thesis by (auto simp: bnd_def)
    next
      case (Inr x)
      from f [of x] obtain tr2 where
        2: "trace (snd (f x s1)) = trace s1 @ tr2" "Q2 x (fst (f x s1)) (filter P tr2)"
        by (auto simp: effect_def)
      from Pair Inr 1 2 have "trace (snd (bnd m f s)) = trace s @ (tr1 @ tr2)"
        by (simp add: bnd_def)
      moreover from Pair Inr 1 2 r have "Q (fst (bnd m f s)) (filter P (tr1 @ tr2))"
        by (simp add: bnd_def)
      ultimately show ?thesis by blast
    qed
  qed
qed

lemma effect_try:
  assumes m: "effect P m Q1"
    and f: "\<And>e. effect P (h e) (Q2 e)"
    and l: "\<And>x t. Q1 (Inr x) t \<Longrightarrow> Q (Inr x) t"
    and r: "\<And>e h1 r h2. Q1 (Inl e) h1 \<Longrightarrow> Q2 e r h2 \<Longrightarrow> Q r (h1 @ h2)"
  shows "effect P (try_except m h) Q"
proof (rule effectI)
  fix s
  from m obtain tr1 where 1: "trace (snd (m s)) = trace s @ tr1" "Q1 (fst (m s)) (filter P tr1)"
    by (auto simp: effect_def)
  show "\<exists>tr. trace (snd (try_except m h s)) = trace s @ tr \<and>
          Q (fst (try_except m h s)) (filter P tr)"
  proof (cases "m s")
    case (Pair a s1)
    show ?thesis
    proof (cases a)
      case (Inr x)
      with Pair 1 l show ?thesis by (auto simp: try_except_def)
    next
      case (Inl e)
      from f [of e] obtain tr2 where
        2: "trace (snd (h e s1)) = trace s1 @ tr2" "Q2 e (fst (h e s1)) (filter P tr2)"
        by (auto simp: effect_def)
      from Pair Inl 1 2 have "trace (snd (try_except m h s)) = trace s @ (tr1 @ tr2)"
        by (simp add: try_except_def)
      moreover from Pair Inl 1 2 r have "Q (fst (try_except m h s)) (filter P (tr1 @ tr2))"
        by (simp add: try_except_def)
      ultimately show ?thesis by blast
    qed
  qed
qed

text \<open>Silent programs.\<close>

lemma silent_ret: "silent P (ret x)"
  by (simp add: silent_def effect_ret)

lemma silent_raise: "silent P (raise e)"
  by (simp add: silent_def effect_raise)

lemma silent_emit: "\<not> P ev \<Longrightarrow> silent P (emit ev)"
  by (simp add: silent_def effect_emit)

lemma silent_call: "\<not> P ev \<Longrightarrow> silent P (call ev r)"
  by (simp add: silent_def effect_call)

lemma silent_bnd: "silent P m \<Longrightarrow> (\<And>x. silent P (f x)) \<Longrightarrow> silent P (bnd m f)"
  unfolding silent_def by (rule effect_bnd [where ?Q1.0 = "\<lambda>r h. h = []" and ?Q2.0 = "\<lambda>x r h. h = []"]) simp_all

lemma silent_seq: "silent P m \<Longrightarrow> silent P k \<Longrightarrow> silent P (seq m k)"
  by (simp add: seq_def silent_bnd)

lemma silent_try: "silent P m \<Longrightarrow> (\<And>e. silent P (h e)) \<Longrightarrow> silent P (try_except m h)"
  unfolding silent_def by (rule effect_try [where ?Q1.0 = "\<lambda>r h. h = []" and ?Q2.0 = "\<lambda>x r h. h = []"]) simp_all

lemma silent_if: "(c \<Longrightarrow> silent P a) \<Longrightarrow> (\<not> c \<Longrightarrow> silent P b) \<Longrightarrow> silent P (if c then a else b)"
  by simp

lemma silent_state:
  "(\<And>s. trace (snd (m s)) = trace s) \<Longrightarrow> silent P m"
  by (simp add: silent_def effect_def)

lemma silent_then:
  assumes a: "silent P m" and b: "\<And>x. effect P (f x) Q" and c: "\<And>e. Q (Inl e) []"
  shows "effect P (bnd m f) Q"
proof (rule effect_bnd [where ?Q1.0 = "\<lambda>r h. h = []" and ?Q2.0 = "\<lambda>x. Q"])
  show "effect P m (\<lambda>r h. h = [])" using a by (simp add: silent_def)
  show "\<And>x. effect P (f x) Q" by (rule b)
  show "\<And>e h. h = [] \<Longrightarrow> Q (Inl e) h" using c by simp
  show "\<And>x h1 r h2. h1 = [] \<Longrightarrow> Q r h2 \<Longrightarrow> Q r (h1 @ h2)" by simp
qed

lemma silent_then_seq:
  assumes "silent P m" and "effect P k Q" and "\<And>e. Q (Inl e) []"
  shows "effect P (seq m k) Q"
  using assms by (simp add: seq_def silent_then)

lemma effect_seq:
  assumes "effect P m Q1" and "effect P k Q2"
    and "\<And>e h. Q1 (Inl e) h \<Longrightarrow> Q (Inl e) h"
    and "\<And>x h1 r h2. Q1 (Inr x) h1 \<Longrightarrow> Q2 r h2 \<Longrightarrow> Q r (h1 @ h2)"
  shows "effect P (seq m k) Q"
  unfolding seq_def
  by (rule effect_bnd [where ?Q1.0 = Q1 and ?Q2.0 = "\<lambda>x. Q2"]) (use assms in auto)

lemma silent_logger: "\<not> P (Log l m) \<Longrightarrow> silent P (logger l m)"
  by (simp add: logger_def silent_emit)

lemma silent_check_output: "\<not> P (Shell c t) \<Longrightarrow> silent P (check_output env c t)"
  by (simp add: check_output_def silent_call)

lemma silent_hci_send: "\<not> P (HciCmd c) \<Longrightarrow> silent P (hci_send env c)"
  by (simp add: hci_send_def silent_call)

lemma silent_clear_cache: "silent P (clear_cache a)"
  by (rule silent_state) (rule clear_cache_keeps_trace)

lemma hci_open_effect:
  "effect is_handle (hci_open env iface)
     (\<lambda>r h. (r = Inr () \<and> h = [HciOpen iface]) \<or> ((\<exists>e. r = Inl e) \<and> h = []))"
  unfolding hci_open_def
  by (rule effect_bnd [where ?Q1.0 = "\<lambda>r h. h = []"
        and ?Q2.0 = "\<lambda>x r h. r = Inr () \<and> h = [HciOpen iface]"])
     (auto intro: effect_call effect_emit)

lemma prepare_hci_handle:
  "effect is_handle (prepare_hci env iface)
     (\<lambda>r h. (r = Inr () \<longrightarrow> h = [HciOpen iface, HciClose]) \<and>
            (r \<noteq> Inr () \<longrightarrow> h = [] \<or> h = [HciOpen iface]))"
  unfolding prepare_hci_def
  apply (rule silent_then)
    apply (simp add: silent_call)
   prefer 2 apply simp
  apply (rule silent_then_seq)
    apply (simp add: silent_check_output)
   prefer 2 apply simp
  apply (rule silent_then_seq)
    apply (simp add: silent_check_output)
   prefer 2 apply simp
  apply (rule silent_then_seq)
    apply (simp add: silent_check_output)
   prefer 2 apply simp
  apply (rule effect_seq [where ?Q1.0 = "\<lambda>r h. (r = Inr () \<and> h = [HciOpen iface]) \<or> ((\<exists>e. r = Inl e) \<and> h = [])"
        and ?Q2.0 = "\<lambda>r h. (r = Inr () \<longrightarrow> h = [HciClose]) \<and> (r \<noteq> Inr () \<longrightarrow> h = [])"])
     apply (rule hci_open_effect)
    prefer 2 apply simp
   prefer 2 apply auto[1]
  apply (intro silent_then silent_then_seq)
  apply (simp_all add: silent_logger silent_hci_send silent_clear_cache silent_ret silent_raise
      hci_close_def effect_emit)
  done

subsection \<open>The controller handle\<close>

text \<open>
  The address read answers with a fatal status: \<^verbatim>\<open>prepare_hci\<close> raises
  \<^verbatim>\<open>RuntimeError\<close>; the handle was opened and is never closed.
\<close>
theorem handle_closed_on_every_path_counterexample:
  "fst (prepare_hci (with_status read_bd_addr (OTHER 3) calm_env) ''hci0'' (init [])) =
     Inl (RuntimeError ''hci.read_bd_addr() returned, status: 0x03 HARDWARE_FAILURE'') \<and>
   handle_events (trace (snd (prepare_hci (with_status read_bd_addr (OTHER 3) calm_env)
     ''hci0'' (init [])))) = [HciOpen ''hci0'']"
proof -
  let ?E = "with_status read_bd_addr (OTHER 3) calm_env"
  have h: "host_ready ?E ''hci0''" by (simp add: concrete)
  have c: "controller_answers ?E" by (simp add: concrete)
  from prepare_hci_summary [OF h c, of "init []"] show ?thesis
    by (simp add: concrete handle_events_simps handle_events_normalization)
qed

text \<open>
  Claim C2, as the code has it. From any state, with any answers of the host and the
  controller: when \<^verbatim>\<open>prepare_hci\<close> returns, it has opened the handle once and closed
  it once, in this order; when it raises, it has not closed the handle, whether it had opened
  it or not.
\<close>

theorem handle_closed_exactly_when_returning:
  "(fst (prepare_hci env iface s) = Inr () \<longrightarrow>
      handle_events (trace (snd (prepare_hci env iface s))) =
        handle_events (trace s) @ [HciOpen iface, HciClose]) \<and>
   (fst (prepare_hci env iface s) \<noteq> Inr () \<longrightarrow>
      handle_events (trace (snd (prepare_hci env iface s))) = handle_events (trace s) \<or>
      handle_events (trace (snd (prepare_hci env iface s))) =
        handle_events (trace s) @ [HciOpen iface])"
proof -
  from prepare_hci_handle [of env iface] obtain tr where
    "trace (snd (prepare_hci env iface s)) = trace s @ tr"
    "(fst (prepare_hci env iface s) = Inr () \<longrightarrow> filter is_handle tr = [HciOpen iface, HciClose]) \<and>
     (fst (prepare_hci env iface s) \<noteq> Inr () \<longrightarrow>
        filter is_handle tr = [] \<or> filter is_handle tr = [HciOpen iface])"
    unfolding effect_def by blast
  then show ?thesis
    by (auto simp: handle_events_def)
qed

theorem handle_closed_exactly_when_returning_witness:
  "fst (prepare_hci calm_env ''hci0'' (init [])) = Inr () \<and>
   handle_events (trace (snd (prepare_hci calm_env ''hci0'' (init [])))) =
     [HciOpen ''hci0'', HciClose] \<and>
   fst (prepare_hci (with_status read_bd_addr COMMAND_DISALLOWED calm_env) ''hci0'' (init [])) \<noteq> Inr () \<and>
   handle_events (trace (snd (prepare_hci (with_status read_bd_addr COMMAND_DISALLOWED calm_env)
     ''hci0'' (init [])))) \<noteq> [] \<and>
   handle_events (trace (snd (prepare_hci (with_status read_bd_addr COMMAND_DISALLOWED calm_env)
     ''hci0'' (init [])))) = [HciOpen ''hci0'']"
proof -
  let ?E = "with_status read_bd_addr COMMAND_DISALLOWED calm_env"
  have h: "host_ready ?E ''hci0''" by (simp add: concrete)
  have c: "controller_answers ?E" by (simp add: concrete)
  have h0: "host_ready calm_env ''hci0''" by (simp add: concrete)
  have c0: "controller_answers calm_env" by (simp add: concrete)
  have cc: "clear_cache a (init []) = (Inr (), init [])" for a
    by (simp add: clear_cache_run init_def)
  have r0: "fst (prepare_hci calm_env ''hci0'' (init [])) = Inr ()"
    using prepare_hci_summary [OF h0 c0, of "init []"] cc by (simp add: concrete)
  have r1: "fst (prepare_hci ?E ''hci0'' (init [])) \<noteq> Inr ()"
    and n1: "handle_events (trace (snd (prepare_hci ?E ''hci0'' (init [])))) \<noteq> []"
    using prepare_hci_summary [OF h c, of "init []"]
    by (simp_all add: concrete handle_events_simps handle_events_normalization)
  from handle_closed_exactly_when_returning [of calm_env "''hci0''" "init []"]
    handle_closed_exactly_when_returning [of ?E "''hci0''" "init []"] r0 r1 n1
  show ?thesis
    by (simp add: init_def handle_events_simps)
qed

subsection \<open>clean\<close>

lemma shell_cmds_simps:
  "shell_cmds [] = []"
  "shell_cmds (tr @ tr') = shell_cmds tr @ shell_cmds tr'"
  "shell_cmds (e # tr) = (case e of Shell c t \<Rightarrow> [(c, t)] | _ \<Rightarrow> []) @ shell_cmds tr"
  "shell_cmds (if b then [Log l m] else []) = []"
  by (simp_all add: shell_cmds_def)

lemma utf8_examples:
  "utf8_valid ''removed''" "\<not> utf8_valid [CHR 0xFF]" "utf8_valid [CHR 0xC3, CHR 0xA9]"
  "\<not> utf8_valid [CHR 0xC0, CHR 0x80]" "\<not> utf8_valid [CHR 0xED, CHR 0xA0, CHR 0x80]"
  "\<not> utf8_valid [CHR 0xE2, CHR 0x82]" "utf8_valid [CHR 0xF0, CHR 0x9F, CHR 0x98, CHR 0x80]"
  by (simp_all add: utf8_valid_def)







subsection \<open>The except clauses of main\<close>

lemma main_raised:
  "main_try env s = (Inl e, s1) \<Longrightarrow> main env s = handler env e s1"
  by (simp add: main_def try_except_def)

lemma main_try_le_scan:
  assumes "r_parse_cmdline env = Inr le_scan_args"
    and "prepare_hci env ''hci0''
           (s\<lparr>args_var := Some le_scan_args,
              trace := trace s @ [Ext ''parse_cmdline'' [],
                  Log DEBUG (''parse_cmdline() returned'' @ [newline] @ ''    args: '' @
                             r_str_args env le_scan_args)]\<rparr>) = (Inr (), s2)"
    and "args_var s2 = Some le_scan_args"
    and "r_ext env ''LeScanner'' [PyStr ''hci0''] = Inr ()"
  shows "main_try env s =
     (case r_scan env ''LeScanner.scan_devs'' [PyNone, PyNone, PyNone] of
        Inl e \<Rightarrow> (Inl e, s2\<lparr>trace := trace s2 @
                     [Ext ''LeScanner'' [PyStr ''hci0''],
                      Scan ''LeScanner.scan_devs'' [PyNone, PyNone, PyNone]]\<rparr>)
      | Inr v \<Rightarrow> show_result env v (s2\<lparr>trace := trace s2 @
                     [Ext ''LeScanner'' [PyStr ''hci0''],
                      Scan ''LeScanner.scan_devs'' [PyNone, PyNone, PyNone]]\<rparr>))"
  using assms
  by (simp add: main_try_def normalize_def dispatch_def le_scan_args_def run set_args_def
      get_args_def ext_def scan_def split: sum.splits)

lemma le_scan_session:
  assumes h: "host_ready env ''hci0''" and c: "controller_answers env"
    and st: "status_of env read_bd_addr = SUCCESS"
    and parse: "r_parse_cmdline env = Inr le_scan_args"
    and ext: "r_ext env ''LeScanner'' [PyStr ''hci0''] = Inr ()"
  shows "\<exists>s2 devid. r_find_rfkill_devid env ''hci0'' = Inr devid \<and>
     args_var s2 = Some le_scan_args \<and>
     trace s2 =
       [Ext ''parse_cmdline'' [],
        Log DEBUG (''parse_cmdline() returned'' @ [newline] @ ''    args: '' @
                   r_str_args env le_scan_args)] @
       normalization_events env ''hci0'' devid
         (status_of env inquiry_cancel) (status_of env exit_periodic_inquiry_mode)
         (status_of env le_set_advertising_enable)
         (status_of env (le_set_scan_enable False True))
         (status_of env (set_event_filter 0)) @ [HciClose] \<and>
     main_try env (init []) =
     (case r_scan env ''LeScanner.scan_devs'' [PyNone, PyNone, PyNone] of
        Inl e \<Rightarrow> (Inl e, s2\<lparr>trace := trace s2 @
                     [Ext ''LeScanner'' [PyStr ''hci0''],
                      Scan ''LeScanner.scan_devs'' [PyNone, PyNone, PyNone]]\<rparr>)
      | Inr v \<Rightarrow> show_result env v (s2\<lparr>trace := trace s2 @
                     [Ext ''LeScanner'' [PyStr ''hci0''],
                      Scan ''LeScanner.scan_devs'' [PyNone, PyNone, PyNone]]\<rparr>))"
proof -
  let ?s0 = "(init [])\<lparr>args_var := Some le_scan_args,
      trace := trace (init []) @ [Ext ''parse_cmdline'' [],
          Log DEBUG (''parse_cmdline() returned'' @ [newline] @ ''    args: '' @
                     r_str_args env le_scan_args)]\<rparr>"
  let ?s2 = "snd (prepare_hci env ''hci0'' ?s0)"
  have cc: "clear_cache a ?s0 = (Inr (), ?s0)" for a
    by (simp add: clear_cache_run init_def)
  from prepare_hci_summary [OF h c, of ?s0] st cc obtain devid where
    d: "r_find_rfkill_devid env ''hci0'' = Inr devid"
    and r: "fst (prepare_hci env ''hci0'' ?s0) = Inr ()"
    and a: "args_var ?s2 = Some le_scan_args"
    and t: "trace ?s2 = trace ?s0 @
       normalization_events env ''hci0'' devid
         (status_of env inquiry_cancel) (status_of env exit_periodic_inquiry_mode)
         (status_of env le_set_advertising_enable)
         (status_of env (le_set_scan_enable False True))
         (status_of env (set_event_filter 0)) @ [HciClose]"
    by auto
  from r have p: "prepare_hci env ''hci0'' ?s0 = (Inr (), ?s2)"
    by (simp add: prod_eq_iff)
  have t0: "trace ?s0 = [Ext ''parse_cmdline'' [],
          Log DEBUG (''parse_cmdline() returned'' @ [newline] @ ''    args: '' @
                     r_str_args env le_scan_args)]"
    by (simp add: init_def)
  from t have t': "trace ?s2 = [Ext ''parse_cmdline'' [],
          Log DEBUG (''parse_cmdline() returned'' @ [newline] @ ''    args: '' @
                     r_str_args env le_scan_args)] @
       normalization_events env ''hci0'' devid
         (status_of env inquiry_cancel) (status_of env exit_periodic_inquiry_mode)
         (status_of env le_set_advertising_enable)
         (status_of env (le_set_scan_enable False True))
         (status_of env (set_event_filter 0)) @ [HciClose]"
    by (simp only: t0)
  from d a t' main_try_le_scan [OF parse p a ext] show ?thesis by blast
qed

lemma shell_cmds_normalization:
  "shell_cmds (normalization_events env iface devid st1 st2 st4 st5 st6) =
     [(''rfkill unblock '' @ str_int devid, 5), (''hciconfig '' @ iface @ '' up'', 5),
      (''systemctl restart bluetooth.service'', 5)]"
  by (simp add: normalization_events_def shell_cmds_def warning_if_def)

lemma infos_normalization:
  "Log INFO m \<notin> set (normalization_events env iface devid st1 st2 st4 st5 st6)"
  by (simp add: normalization_events_def warning_if_def)

text \<open>
  Claim C8. When the body of \<^verbatim>\<open>main\<close> raises \<^verbatim>\<open>BTLEException\<close> with message
  \<open>m\<close>, \<^verbatim>\<open>main\<close> logs one error line, the message, followed by a line break and
  the hint \<^verbatim>\<open>No BLE adapter or missing sudo?\<close> exactly when \<^verbatim>\<open>le on\<close> occurs in the
  message; then \<^verbatim>\<open>main\<close> returns and the exit status is 0.
\<close>

theorem ble_engine_failure_is_logged:
  assumes "main_try env s = (Inl (BTLEException m), s1)"
  shows "main env s =
           (Inr (), s1\<lparr>trace := trace s1 @
              [Log ERROR (m @ (if contains m ''le on''
                               then [newline] @ ''No BLE adapter or missing sudo?'' else []))]\<rparr>) \<and>
         exit_code (fst (main env s)) = 0"
  using main_raised [OF assms]
  by (simp add: handler_def logger_def emit_def exit_code_def)

theorem ble_engine_failure_is_logged_witness:
  "fst (main_try (with_scan (Inl (BTLEException ble_message)) calm_env) (init [])) =
     Inl (BTLEException ble_message) \<and>
   contains ble_message ''le on'' \<and>
   fst (main (with_scan (Inl (BTLEException ble_message)) calm_env) (init [])) = Inr () \<and>
   exit_code (fst (main (with_scan (Inl (BTLEException ble_message)) calm_env) (init []))) = 0 \<and>
   last (trace (snd (main (with_scan (Inl (BTLEException ble_message)) calm_env) (init [])))) =
     Log ERROR (ble_message @ [newline] @ ''No BLE adapter or missing sudo?'')"
proof -
  let ?E = "with_scan (Inl (BTLEException ble_message)) calm_env"
  have h: "host_ready ?E ''hci0''" by (simp add: concrete)
  have c: "controller_answers ?E" by (simp add: concrete)
  have st: "status_of ?E read_bd_addr = SUCCESS" by (simp add: concrete)
  have p: "r_parse_cmdline ?E = Inr le_scan_args" by (simp add: concrete)
  have e: "r_ext ?E ''LeScanner'' [PyStr ''hci0''] = Inr ()" by (simp add: concrete)
  have sc: "r_scan ?E ''LeScanner.scan_devs'' [PyNone, PyNone, PyNone] = Inl (BTLEException ble_message)"
    by (simp add: concrete)
  have le: "contains ble_message ''le on''"
    by (simp add: contains_def ble_message_def sublist_Cons_right)
  from le_scan_session [OF h c st p e] sc obtain s1 where
    mt: "main_try ?E (init []) = (Inl (BTLEException ble_message), s1)"
    by auto
  from ble_engine_failure_is_logged [OF mt] mt le show ?thesis
    by (simp add: exit_code_def)
qed

text \<open>
  An interrupt arrives during the LE device scan on \<^verbatim>\<open>hci0\<close> and the reset command
  \<^verbatim>\<open>hciconfig hci0 reset\<close> fails: its \<^verbatim>\<open>CalledProcessError\<close> leaves
  \<^verbatim>\<open>main\<close>, nothing is printed, and the exit status is 1.
\<close>

theorem interrupt_exits_cleanly_counterexample:
  "fst (main_try (with_shell ''hciconfig hci0 reset'' (Inl (CalledProcessError ''hciconfig hci0 reset''))
          (with_scan (Inl KeyboardInterrupt) calm_env)) (init [])) = Inl KeyboardInterrupt \<and>
   (case args_var (snd (main_try (with_shell ''hciconfig hci0 reset''
           (Inl (CalledProcessError ''hciconfig hci0 reset''))
           (with_scan (Inl KeyboardInterrupt) calm_env)) (init []))) of
      Some args \<Rightarrow> args ''-i'' = PyStr ''hci0'' | None \<Rightarrow> False) \<and>
   fst (main (with_shell ''hciconfig hci0 reset'' (Inl (CalledProcessError ''hciconfig hci0 reset''))
          (with_scan (Inl KeyboardInterrupt) calm_env)) (init [])) =
     Inl (CalledProcessError ''hciconfig hci0 reset'') \<and>
   exit_code (fst (main (with_shell ''hciconfig hci0 reset''
          (Inl (CalledProcessError ''hciconfig hci0 reset''))
          (with_scan (Inl KeyboardInterrupt) calm_env)) (init []))) = 1 \<and>
   Log INFO (''Canceled'' @ [newline]) \<notin>
     set (trace (snd (main (with_shell ''hciconfig hci0 reset''
          (Inl (CalledProcessError ''hciconfig hci0 reset''))
          (with_scan (Inl KeyboardInterrupt) calm_env)) (init []))))"
proof -
  let ?E = "with_shell ''hciconfig hci0 reset'' (Inl (CalledProcessError ''hciconfig hci0 reset''))
          (with_scan (Inl KeyboardInterrupt) calm_env)"
  have h: "host_ready ?E ''hci0''" by (simp add: concrete)
  have c: "controller_answers ?E" by (simp add: concrete)
  have st: "status_of ?E read_bd_addr = SUCCESS" by (simp add: concrete)
  have p: "r_parse_cmdline ?E = Inr le_scan_args" by (simp add: concrete)
  have e: "r_ext ?E ''LeScanner'' [PyStr ''hci0''] = Inr ()" by (simp add: concrete)
  have sc: "r_scan ?E ''LeScanner.scan_devs'' [PyNone, PyNone, PyNone] = Inl KeyboardInterrupt"
    by (simp add: concrete)
  have rs: "r_check_output ?E ''hciconfig hci0 reset'' 60 = Inl (CalledProcessError ''hciconfig hci0 reset'')"
    by (simp add: concrete)
  have i: "le_scan_args ''-i'' = PyStr ''hci0''" by (simp add: le_scan_args_def)
  from le_scan_session [OF h c st p e] sc obtain s2 devid where
    a: "args_var s2 = Some le_scan_args"
    and t: "trace s2 =
       [Ext ''parse_cmdline'' [],
        Log DEBUG (''parse_cmdline() returned'' @ [newline] @ ''    args: '' @
                   r_str_args ?E le_scan_args)] @
       normalization_events ?E ''hci0'' devid
         (status_of ?E inquiry_cancel) (status_of ?E exit_periodic_inquiry_mode)
         (status_of ?E le_set_advertising_enable)
         (status_of ?E (le_set_scan_enable False True))
         (status_of ?E (set_event_filter 0)) @ [HciClose]"
    and mt: "main_try ?E (init []) = (Inl KeyboardInterrupt, s2\<lparr>trace := trace s2 @
                     [Ext ''LeScanner'' [PyStr ''hci0''],
                      Scan ''LeScanner.scan_devs'' [PyNone, PyNone, PyNone]]\<rparr>)"
    by auto
  have m: "main ?E (init []) =
      (Inl (CalledProcessError ''hciconfig hci0 reset''),
       s2\<lparr>trace := trace s2 @
                     [Ext ''LeScanner'' [PyStr ''hci0''],
                      Scan ''LeScanner.scan_devs'' [PyNone, PyNone, PyNone],
                      Shell ''hciconfig hci0 reset'' 60]\<rparr>)"
    using main_raised [OF mt] a i rs
    by (simp add: handler_def run get_args_def)
  from mt a i m t show ?thesis
    by (simp add: exit_code_def infos_normalization)
qed

text \<open>
  Claim C7, as the code has it. When the body of \<^verbatim>\<open>main\<close> raises
  \<^verbatim>\<open>KeyboardInterrupt\<close> after \<^verbatim>\<open>args\<close> has been bound: if \<^verbatim>\<open>args['-i']\<close>
  is an interface name, exactly one command \<^verbatim>\<open>hciconfig <iface> reset\<close> is run; when it
  returns, an empty line and the information \<^verbatim>\<open>Canceled\<close> follow and \<^verbatim>\<open>main\<close>
  returns; when it raises, its exception leaves \<^verbatim>\<open>main\<close> and nothing is printed. If
  \<^verbatim>\<open>args['-i']\<close> is \<^verbatim>\<open>None\<close>, no command is run, the empty line and
  \<^verbatim>\<open>Canceled\<close> are printed and \<^verbatim>\<open>main\<close> returns.
\<close>

theorem interrupt_resets_selected_interface:
  assumes "main_try env s = (Inl KeyboardInterrupt, s1)" and "args_var s1 = Some args"
  shows "(args ''-i'' = PyStr i \<longrightarrow>
            main env s =
              (case r_check_output env (''hciconfig '' @ i @ '' reset'') 60 of
                 Inr out \<Rightarrow>
                   (Inr (), s1\<lparr>trace := trace s1 @
                      [Shell (''hciconfig '' @ i @ '' reset'') 60, Print [],
                       Log INFO (''Canceled'' @ [newline])]\<rparr>)
               | Inl e \<Rightarrow>
                   (Inl e, s1\<lparr>trace := trace s1 @ [Shell (''hciconfig '' @ i @ '' reset'') 60]\<rparr>))) \<and>
         (args ''-i'' = PyNone \<longrightarrow>
            main env s =
              (Inr (), s1\<lparr>trace := trace s1 @ [Print [], Log INFO (''Canceled'' @ [newline])]\<rparr>))"
  using main_raised [OF assms(1)] assms(2)
  by (auto simp: handler_def run get_args_def split: sum.splits)

theorem interrupt_resets_selected_interface_witness:
  "fst (main_try (with_scan (Inl KeyboardInterrupt) calm_env) (init [])) = Inl KeyboardInterrupt \<and>
   le_scan_args ''-i'' = PyStr ''hci0'' \<and>
   fst (main (with_scan (Inl KeyboardInterrupt) calm_env) (init [])) = Inr () \<and>
   exit_code (fst (main (with_scan (Inl KeyboardInterrupt) calm_env) (init []))) = 0 \<and>
   shell_cmds (trace (snd (main (with_scan (Inl KeyboardInterrupt) calm_env) (init [])))) =
     [(''rfkill unblock 0'', 5), (''hciconfig hci0 up'', 5),
      (''systemctl restart bluetooth.service'', 5), (''hciconfig hci0 reset'', 60)] \<and>
   fst (main_try (with_ext (Inl KeyboardInterrupt) (with_parse (Inr list_plugins_args) calm_env))
          (init [])) = Inl KeyboardInterrupt \<and>
   list_plugins_args ''-i'' = PyNone \<and>
   main (with_ext (Inl KeyboardInterrupt) (with_parse (Inr list_plugins_args) calm_env)) (init []) =
     (Inr (), \<lparr>trace = [Ext ''parse_cmdline'' [],
                         Log DEBUG (''parse_cmdline() returned'' @ [newline] @ ''    args: {}''),
                         Ext ''list_plugins'' [], Print [], Log INFO (''Canceled'' @ [newline])],
               fs = [], args_var = Some list_plugins_args\<rparr>)"
proof -
  let ?E = "with_scan (Inl KeyboardInterrupt) calm_env"
  let ?F = "with_ext (Inl KeyboardInterrupt) (with_parse (Inr list_plugins_args) calm_env)"
  have h: "host_ready ?E ''hci0''" by (simp add: concrete)
  have c: "controller_answers ?E" by (simp add: concrete)
  have st: "status_of ?E read_bd_addr = SUCCESS" by (simp add: concrete)
  have p: "r_parse_cmdline ?E = Inr le_scan_args" by (simp add: concrete)
  have e: "r_ext ?E ''LeScanner'' [PyStr ''hci0''] = Inr ()" by (simp add: concrete)
  have sc: "r_scan ?E ''LeScanner.scan_devs'' [PyNone, PyNone, PyNone] = Inl KeyboardInterrupt"
    by (simp add: concrete)
  have rs: "r_check_output ?E (''hciconfig '' @ ''hci0'' @ '' reset'') 60 = Inr []"
    by (simp add: concrete)
  have dv: "r_find_rfkill_devid ?E ''hci0'' = Inr 0" by (simp add: concrete)
  have i: "le_scan_args ''-i'' = PyStr ''hci0''" by (simp add: le_scan_args_def)
  have j: "list_plugins_args ''-i'' = PyNone" by (simp add: list_plugins_args_def)
  from le_scan_session [OF h c st p e] sc dv obtain s2 where
    a: "args_var s2 = Some le_scan_args"
    and t: "trace s2 =
       [Ext ''parse_cmdline'' [],
        Log DEBUG (''parse_cmdline() returned'' @ [newline] @ ''    args: '' @
                   r_str_args ?E le_scan_args)] @
       normalization_events ?E ''hci0'' 0
         (status_of ?E inquiry_cancel) (status_of ?E exit_periodic_inquiry_mode)
         (status_of ?E le_set_advertising_enable)
         (status_of ?E (le_set_scan_enable False True))
         (status_of ?E (set_event_filter 0)) @ [HciClose]"
    and mt: "main_try ?E (init []) = (Inl KeyboardInterrupt, s2\<lparr>trace := trace s2 @
                     [Ext ''LeScanner'' [PyStr ''hci0''],
                      Scan ''LeScanner.scan_devs'' [PyNone, PyNone, PyNone]]\<rparr>)"
    by auto
  let ?s1 = "s2\<lparr>trace := trace s2 @
                     [Ext ''LeScanner'' [PyStr ''hci0''],
                      Scan ''LeScanner.scan_devs'' [PyNone, PyNone, PyNone]]\<rparr>"
  have a1: "args_var ?s1 = Some le_scan_args" using a by simp
  have sh: "shell_cmds (trace s2) =
     [(''rfkill unblock 0'', 5), (''hciconfig hci0 up'', 5),
      (''systemctl restart bluetooth.service'', 5)]"
    by (simp add: t shell_cmds_simps shell_cmds_normalization str_int_def digit_def)
  have mf: "main_try ?F (init []) =
     (Inl KeyboardInterrupt,
      \<lparr>trace = [Ext ''parse_cmdline'' [],
                 Log DEBUG (''parse_cmdline() returned'' @ [newline] @ ''    args: {}''),
                 Ext ''list_plugins'' []],
       fs = [], args_var = Some list_plugins_args\<rparr>)"
    by (simp add: main_try_def run set_args_def ext_def init_def with_ext_def with_parse_def
        calm_env_def list_plugins_args_def)
  have af: "args_var \<lparr>trace = [Ext ''parse_cmdline'' [],
                 Log DEBUG (''parse_cmdline() returned'' @ [newline] @ ''    args: {}''),
                 Ext ''list_plugins'' []],
       fs = [], args_var = Some list_plugins_args\<rparr> = Some list_plugins_args"
    by simp
  from interrupt_resets_selected_interface [OF mt a1, of "''hci0''"]
    interrupt_resets_selected_interface [OF mf af, of "''hci0''"]
    mt mf i j rs sh
  show ?thesis
    by (simp add: exit_code_def shell_cmds_simps)
qed

subsection \<open>The result lifecycle\<close>

lemma silent_effect: "silent P m \<Longrightarrow> (\<And>r. Q r []) \<Longrightarrow> effect P m Q"
  unfolding silent_def by (erule effect_weaken) simp

lemma effect_then_silent:
  assumes "effect P m Q1" and "silent P k"
    and "\<And>e h. Q1 (Inl e) h \<Longrightarrow> Q (Inl e) h"
    and "\<And>x h r. Q1 (Inr x) h \<Longrightarrow> Q r h"
  shows "effect P (seq m k) Q"
proof (rule effect_seq [where ?Q1.0 = Q1 and ?Q2.0 = "\<lambda>r h. h = []"])
  show "effect P m Q1" by fact
  show "effect P k (\<lambda>r h. h = [])" using assms(2) by (simp add: silent_def)
  show "\<And>e h. Q1 (Inl e) h \<Longrightarrow> Q (Inl e) h" by fact
  show "\<And>x h1 r h2. Q1 (Inr x) h1 \<Longrightarrow> h2 = [] \<Longrightarrow> Q r (h1 @ h2)"
    using assms(4) by simp
qed

lemma silent_get_args: "silent P get_args"
  by (rule silent_state) (simp add: get_args_def split: option.splits)

lemma silent_set_args: "silent P (set_args a)"
  by (rule silent_state) (simp add: set_args_def)

lemma silent_set_arg: "silent P (set_arg k v)"
  by (simp add: set_arg_def silent_bnd silent_get_args silent_set_args)

lemma silent_ext: "\<not> P (Ext n vs) \<Longrightarrow> silent P (ext env n vs)"
  by (simp add: ext_def silent_call)

lemma silent_py_upper: "silent P (py_upper v)"
  by (cases v) (simp_all add: py_upper_def silent_ret silent_raise)

lemmas silent_intros = silent_bnd silent_seq silent_try silent_if

lemma silent_hci_open: "silent is_lifecycle (hci_open env iface)"
  unfolding hci_open_def
  by (intro silent_intros) (simp_all add: silent_call silent_emit)

lemma silent_prepare_hci: "silent is_lifecycle (prepare_hci env iface)"
  unfolding prepare_hci_def
  by (intro silent_intros)
     (simp_all add: silent_call silent_check_output silent_hci_open silent_logger
        silent_hci_send silent_ret silent_raise silent_clear_cache hci_close_def silent_emit)

lemma silent_decode: "silent P (decode env bs)"
  by (simp add: decode_def silent_ret silent_raise)

lemma silent_clean: "silent is_lifecycle (clean env laddr raddr)"
  unfolding clean_def
  by (intro silent_intros)
     (simp_all add: silent_check_output silent_logger silent_ret silent_py_upper silent_decode)

lemma silent_normalize: "silent is_lifecycle (normalize env args)"
  unfolding normalize_def
  apply (intro silent_intros)
  apply (simp_all add: silent_call silent_set_arg silent_ret silent_get_args silent_prepare_hci)
  subgoal for e
    by (cases e) (simp_all add: silent_raise silent_seq silent_logger)
  done

lemma effect_if:
  "(c \<Longrightarrow> effect P a Q) \<Longrightarrow> (\<not> c \<Longrightarrow> effect P b Q) \<Longrightarrow> effect P (if c then a else b) Q"
  by simp

lemma show_result_effect:
  "effect is_lifecycle (show_result env v)
     (\<lambda>r h. h = (case v of Some x \<Rightarrow> rendering env x | None \<Rightarrow> []))"
proof (cases v)
  case None
  then show ?thesis by (simp add: show_result_def effect_ret)
next
  case (Some x)
  then show ?thesis
    by (cases "r_result_print env x")
       (simp_all add: show_result_def effect_def seq_def bnd_def emit_def call_def
          rendering_def returns_def)
qed

lemma silent_lc_ext: "silent is_lifecycle (ext env n vs)"
  by (simp add: silent_ext)

lemma silent_lc_call_ext: "silent is_lifecycle (call (Ext n vs) r)"
  by (simp add: silent_call)

lemma silent_lc_logger: "silent is_lifecycle (logger l m)"
  by (simp add: silent_logger)

lemma dp_ret: "effect P (ret None) (dispatch_post env)"
  by (rule effect_ret) (simp add: dispatch_post_def)

lemma dp_scan: "kept_scan n \<Longrightarrow> effect is_lifecycle (scan env n vs) (dispatch_post env)"
  unfolding scan_def by (rule effect_call) (auto simp: dispatch_post_def)

lemma dp_seq:
  "silent P m \<Longrightarrow> effect P k (dispatch_post env) \<Longrightarrow> effect P (seq m k) (dispatch_post env)"
  by (rule silent_then_seq) (simp_all add: dispatch_post_def)

lemma dp_bnd:
  "silent P m \<Longrightarrow> (\<And>x. effect P (f x) (dispatch_post env)) \<Longrightarrow>
   effect P (bnd m f) (dispatch_post env)"
  by (rule silent_then) (simp_all add: dispatch_post_def)

lemma kept_scan_names: "kept_scan ''LeScanner.scan_devs''" "kept_scan ''GattScanner.scan''"
  by (simp_all add: kept_scan_def)

lemma dispatch_effect: "effect is_lifecycle (dispatch env args) (dispatch_post env)"
  unfolding dispatch_def
  by (intro effect_if dp_seq dp_bnd dp_ret dp_scan kept_scan_names
        silent_lc_ext silent_lc_call_ext silent_lc_logger silent_clean)

lemma lifecycle_ok_Nil: "lifecycle_ok env []"
  by (simp add: lifecycle_ok_def)

lemma result_lifecycle_core:
  "effect is_lifecycle (bnd (dispatch env args) (show_result env)) (\<lambda>r h. lifecycle_ok env h)"
proof (rule effect_bnd [where ?Q1.0 = "dispatch_post env"
      and ?Q2.0 = "\<lambda>v r h. h = (case v of Some x \<Rightarrow> rendering env x | None \<Rightarrow> [])"])
  show "effect is_lifecycle (dispatch env args) (dispatch_post env)"
    by (rule dispatch_effect)
  show "\<And>x. effect is_lifecycle (show_result env x)
          (\<lambda>r h. h = (case x of None \<Rightarrow> [] | Some x \<Rightarrow> rendering env x))"
    by (rule show_result_effect)
next
  fix e h
  assume "dispatch_post env (Inl e) h"
  then consider "h = []" | n vs where "kept_scan n" "h = [Scan n vs]" "r_scan env n vs = Inl e"
    by (auto simp: dispatch_post_def)
  then show "lifecycle_ok env h"
  proof cases
    case 1
    then show ?thesis by (simp add: lifecycle_ok_def)
  next
    case 2
    then have "h = after_scan env n vs" by (simp add: after_scan_def)
    with 2(1) show ?thesis unfolding lifecycle_ok_def by blast
  qed
next
  fix v h1 and r :: "exc + unit" and h2
  assume d: "dispatch_post env (Inr v) h1"
    and s: "h2 = (case v of None \<Rightarrow> [] | Some x \<Rightarrow> rendering env x)"
  from d consider "h1 = []" "v = None"
    | n vs where "kept_scan n" "h1 = [Scan n vs]" "r_scan env n vs = Inr v"
    by (cases v) (auto simp: dispatch_post_def)
  then show "lifecycle_ok env (h1 @ h2)"
  proof cases
    case 1
    with s show ?thesis by (simp add: lifecycle_ok_def)
  next
    case 2
    with s have "h1 @ h2 = after_scan env n vs"
      by (cases v) (simp_all add: after_scan_def)
    with 2(1) show ?thesis unfolding lifecycle_ok_def by blast
  qed
qed

lemma lo_silent: "silent P m \<Longrightarrow> effect P m (\<lambda>r h. lifecycle_ok env h)"
  by (rule silent_effect) (simp_all add: lifecycle_ok_Nil)

lemma lo_seq:
  "silent P m \<Longrightarrow> effect P k (\<lambda>r h. lifecycle_ok env h) \<Longrightarrow>
   effect P (seq m k) (\<lambda>r h. lifecycle_ok env h)"
  by (rule silent_then_seq) (simp_all add: lifecycle_ok_Nil)

lemma lo_bnd:
  "silent P m \<Longrightarrow> (\<And>x. effect P (f x) (\<lambda>r h. lifecycle_ok env h)) \<Longrightarrow>
   effect P (bnd m f) (\<lambda>r h. lifecycle_ok env h)"
  by (rule silent_then) (simp_all add: lifecycle_ok_Nil)

lemma main_try_effect: "effect is_lifecycle (main_try env) (\<lambda>r h. lifecycle_ok env h)"
  unfolding main_try_def
  apply (rule lo_bnd, rule silent_lc_call_ext)
  apply (rule lo_seq, rule silent_set_args)
  apply (rule lo_seq, rule silent_lc_logger)
  apply (intro effect_if)
      apply (rule lo_silent, rule silent_lc_ext)
     apply (rule lo_silent, rule silent_lc_ext)
    apply (rule lo_silent, rule silent_lc_ext)
   apply (rule lo_silent, rule silent_lc_ext)
  apply (rule lo_seq, rule silent_normalize)
  apply (rule lo_bnd, rule silent_get_args)
  apply (rule result_lifecycle_core)
  done

lemma no_result_ret: "no_result (ret None)"
  by (simp add: no_result_def ret_def)

lemma no_result_bnd: "(\<And>x. no_result (f x)) \<Longrightarrow> no_result (bnd m f)"
  by (auto simp: no_result_def bnd_def split: prod.splits sum.splits)

lemma no_result_seq: "no_result k \<Longrightarrow> no_result (seq m k)"
  by (simp add: seq_def no_result_bnd)

lemma no_result_if:
  "(c \<Longrightarrow> no_result a) \<Longrightarrow> (\<not> c \<Longrightarrow> no_result b) \<Longrightarrow> no_result (if c then a else b)"
  by simp

lemma dispatch_no_result: "\<not> result_mode args \<Longrightarrow> no_result (dispatch env args)"
  unfolding dispatch_def
  apply (intro no_result_if no_result_seq no_result_bnd no_result_ret)
   apply (simp_all add: result_mode_def)
  done

lemma handler_reset_silent:
  "silent is_lifecycle
     (bnd get_args (\<lambda>args.
        if args ''-i'' \<noteq> PyNone then
          (case args ''-i'' of
             PyStr i \<Rightarrow> bnd (check_output env (join '' '' [''hciconfig'', i, ''reset'']) 60)
                          (\<lambda>output. ret ())
           | _ \<Rightarrow> raise (TypeError ''join''))
        else ret ()))"
proof (rule silent_bnd [OF silent_get_args])
  fix args :: argdict
  show "silent is_lifecycle
      (if args ''-i'' \<noteq> PyNone then
          (case args ''-i'' of
             PyStr i \<Rightarrow> bnd (check_output env (join '' '' [''hciconfig'', i, ''reset'']) 60)
                          (\<lambda>output. ret ())
           | _ \<Rightarrow> raise (TypeError ''join''))
        else ret ())"
    by (cases "args ''-i''")
       (simp_all add: silent_ret silent_raise silent_bnd silent_check_output)
qed

lemma handler_effect:
  "effect is_lifecycle (handler env e) (\<lambda>r h. h = [] \<or> h = [Print []])"
proof (cases e)
  case KeyboardInterrupt
  have "effect is_lifecycle (seq (emit (Print [])) (logger INFO (''Canceled'' @ [newline])))
          (\<lambda>r h. h = [] \<or> h = [Print []])"
    by (rule effect_then_silent [where ?Q1.0 = "\<lambda>r h. h = [Print []]"])
       (simp_all add: effect_emit silent_lc_logger)
  with handler_reset_silent [of env] show ?thesis
    unfolding KeyboardInterrupt handler_def exc.case
    by (rule silent_then_seq) simp
qed (simp_all add: handler_def silent_effect silent_raise silent_seq silent_emit silent_lc_logger)

lemma main_effect:
  "effect is_lifecycle (main env)
     (\<lambda>r h. \<exists>a b. h = a @ b \<and> lifecycle_ok env a \<and> (b = [] \<or> b = [Print []]))"
  unfolding main_def
proof (rule effect_try [where ?Q1.0 = "\<lambda>r h. lifecycle_ok env h"
      and ?Q2.0 = "\<lambda>e r h. h = [] \<or> h = [Print []]"])
  show "effect is_lifecycle (main_try env) (\<lambda>r h. lifecycle_ok env h)"
    by (rule main_try_effect)
  show "\<And>e. effect is_lifecycle (handler env e) (\<lambda>r h. h = [] \<or> h = [Print []])"
    by (rule handler_effect)
  show "\<And>x t. lifecycle_ok env t \<Longrightarrow>
          \<exists>a b. t = a @ b \<and> lifecycle_ok env a \<and> (b = [] \<or> b = [Print []])"
    by (metis append_Nil2)
  show "\<And>e h1 r h2. lifecycle_ok env h1 \<Longrightarrow> h2 = [] \<or> h2 = [Print []] \<Longrightarrow>
          \<exists>a b. h1 @ h2 = a @ b \<and> lifecycle_ok env a \<and> (b = [] \<or> b = [Print []])"
    by blast
qed

lemma rendered_filter: "rendered (filter is_lifecycle tr) = rendered tr"
  by (induction tr) (auto simp: rendered_def split: event.splits)

lemma stored_filter: "stored (filter is_lifecycle tr) = stored tr"
  by (induction tr) (auto simp: stored_def split: event.splits)

lemma produced_filter: "produced env (filter is_lifecycle tr) = produced env tr"
  by (induction tr) (auto simp: produced_def split: event.splits)

lemma scan_filter: "Scan n vs \<in> set (filter is_lifecycle tr) \<longleftrightarrow> Scan n vs \<in> set tr"
  by auto

lemma projections_append:
  "rendered (a @ b) = rendered a @ rendered b"
  "stored (a @ b) = stored a @ stored b"
  "produced env (a @ b) = produced env a @ produced env b"
  by (simp_all add: rendered_def stored_def produced_def)

lemma projections_rendering:
  "rendered (rendering env x) = [x]"
  "stored (rendering env x) = (if returns (r_result_print env x) then [x] else [])"
  "produced env (rendering env x) = []"
  "Scan n vs \<notin> set (rendering env x)"
  by (simp_all add: rendered_def stored_def produced_def rendering_def)

lemma lifecycle_summary:
  assumes h: "h = a @ b" and a: "lifecycle_ok env a" and b: "b = [] \<or> b = [Print []]"
  shows "rendered h = produced env h \<and>
         stored h = filter (\<lambda>x. returns (r_result_print env x)) (produced env h) \<and>
         length (produced env h) \<le> 1 \<and>
         (\<forall>x\<in>set (produced env h). sublist (rendering env x) h) \<and>
         (\<forall>n vs. Scan n vs \<in> set h \<longrightarrow> kept_scan n)"
proof -
  from b have pb: "rendered b = []" "stored b = []" "produced env b = []"
      "\<And>n vs. Scan n vs \<notin> set b"
    by (auto simp: rendered_def stored_def produced_def)
  from a consider "a = []"
    | n vs where "kept_scan n" "a = [Scan n vs]" "\<forall>x. r_scan env n vs \<noteq> Inr (Some x)"
    | n vs x where "kept_scan n" "a = [Scan n vs] @ rendering env x" "r_scan env n vs = Inr (Some x)"
  proof (cases "a = []")
    case True
    then show ?thesis by (rule that(1))
  next
    case False
    with a obtain n vs where k: "kept_scan n" and e: "a = after_scan env n vs"
      by (auto simp: lifecycle_ok_def)
    show ?thesis
    proof (cases "r_scan env n vs")
      case (Inl err)
      with e have "a = [Scan n vs]" by (simp add: after_scan_def)
      with k Inl show ?thesis by (intro that(2)) auto
    next
      case (Inr v)
      show ?thesis
      proof (cases v)
        case None
        with e Inr have "a = [Scan n vs]" by (simp add: after_scan_def)
        with k Inr None show ?thesis by (intro that(2)) auto
      next
        case (Some x)
        with e Inr have "a = [Scan n vs] @ rendering env x" by (simp add: after_scan_def)
        with k Inr Some show ?thesis by (intro that(3)) auto
      qed
    qed
  qed
  note cases = this
  have ph: "rendered h = rendered a @ rendered b" "stored h = stored a @ stored b"
      "produced env h = produced env a @ produced env b"
    by (simp_all only: h projections_append)
  have sh: "Scan n vs \<in> set h \<longleftrightarrow> Scan n vs \<in> set a" for n vs
    using h pb(4) by auto
  from cases show ?thesis
  proof cases
    case 1
    then have "produced env a = []" "rendered a = []" "stored a = []"
      by (simp_all add: produced_def rendered_def stored_def)
    with 1 show ?thesis by (simp add: ph pb sh)
  next
    case 2
    then have "produced env a = []" "rendered a = []" "stored a = []"
      by (auto simp: produced_def rendered_def stored_def split: sum.splits option.splits)
    with 2 show ?thesis by (simp add: ph pb sh)
  next
    case 3
    have s1: "produced env [Scan n vs] = [x]" "rendered [Scan n vs] = []" "stored [Scan n vs] = []"
      using 3(3) by (simp_all add: produced_def rendered_def stored_def)
    have "produced env a = produced env [Scan n vs] @ produced env (rendering env x)"
      "rendered a = rendered [Scan n vs] @ rendered (rendering env x)"
      "stored a = stored [Scan n vs] @ stored (rendering env x)"
      by (simp_all only: 3(2) projections_append)
    then have p: "produced env a = [x]" "rendered a = [x]"
      "stored a = (if returns (r_result_print env x) then [x] else [])"
      by (simp_all only: s1 projections_rendering append_Nil append_Nil2)
    from 3 h have "h = [Scan n vs] @ rendering env x @ b" by simp
    then have su: "sublist (rendering env x) h" by (simp only: sublist_appendI)
    from 3 have "Scan n' vs' \<in> set a \<longrightarrow> kept_scan n'" for n' vs'
      by (auto simp: projections_rendering)
    with p su show ?thesis by (simp add: ph pb sh)
  qed
qed

lemma lifecycle_normalization:
  "filter is_lifecycle (normalization_events env iface devid st1 st2 st4 st5 st6) = []"
  by (simp add: normalization_events_def warning_if_def)

text \<open>
  The LE device scan returns a result and the method \<^verbatim>\<open>print()\<close> of the result raises:
  the result has been produced and its rendering has been started once, and
  \<^verbatim>\<open>store()\<close> is never called.
\<close>

theorem result_stored_once_counterexample:
  "produced (with_result_print (Inl (OtherError ''BrokenPipeError'')) calm_env)
     (trace (snd (main (with_result_print (Inl (OtherError ''BrokenPipeError'')) calm_env) (init [])))) =
     [\<lparr>rtype = ''LE'', content = ''devices''\<rparr>] \<and>
   rendered (trace (snd (main (with_result_print (Inl (OtherError ''BrokenPipeError'')) calm_env)
     (init [])))) = [\<lparr>rtype = ''LE'', content = ''devices''\<rparr>] \<and>
   stored (trace (snd (main (with_result_print (Inl (OtherError ''BrokenPipeError'')) calm_env)
     (init [])))) = [] \<and>
   fst (main (with_result_print (Inl (OtherError ''BrokenPipeError'')) calm_env) (init [])) =
     Inl (OtherError ''BrokenPipeError'')"
proof -
  let ?E = "with_result_print (Inl (OtherError ''BrokenPipeError'')) calm_env"
  let ?r = "\<lparr>rtype = ''LE'', content = ''devices''\<rparr>"
  let ?T = "trace (snd (main ?E (init [])))"
  have h: "host_ready ?E ''hci0''" by (simp add: concrete with_result_print_def)
  have c: "controller_answers ?E" by (simp add: concrete with_result_print_def)
  have st: "status_of ?E read_bd_addr = SUCCESS" by (simp add: concrete with_result_print_def)
  have p: "r_parse_cmdline ?E = Inr le_scan_args" by (simp add: concrete with_result_print_def)
  have e: "r_ext ?E ''LeScanner'' [PyStr ''hci0''] = Inr ()" by (simp add: concrete with_result_print_def)
  have sc: "r_scan ?E ''LeScanner.scan_devs'' [PyNone, PyNone, PyNone] = Inr (Some ?r)"
    by (simp add: concrete with_result_print_def)
  have pr: "r_result_print ?E ?r = Inl (OtherError ''BrokenPipeError'')"
    by (simp add: with_result_print_def)
  from le_scan_session [OF h c st p e] sc obtain s2 devid where
    t: "trace s2 =
       [Ext ''parse_cmdline'' [],
        Log DEBUG (''parse_cmdline() returned'' @ [newline] @ ''    args: '' @
                   r_str_args ?E le_scan_args)] @
       normalization_events ?E ''hci0'' devid
         (status_of ?E inquiry_cancel) (status_of ?E exit_periodic_inquiry_mode)
         (status_of ?E le_set_advertising_enable)
         (status_of ?E (le_set_scan_enable False True))
         (status_of ?E (set_event_filter 0)) @ [HciClose]"
    and mt: "main_try ?E (init []) = show_result ?E (Some ?r) (s2\<lparr>trace := trace s2 @
                     [Ext ''LeScanner'' [PyStr ''hci0''],
                      Scan ''LeScanner.scan_devs'' [PyNone, PyNone, PyNone]]\<rparr>)"
    by auto
  have M: "main ?E (init []) =
      (Inl (OtherError ''BrokenPipeError''),
       s2\<lparr>trace := trace s2 @ [Ext ''LeScanner'' [PyStr ''hci0''],
                      Scan ''LeScanner.scan_devs'' [PyNone, PyNone, PyNone]] @ rendering ?E ?r\<rparr>)"
    by (simp add: main_def try_except_def mt show_result_def seq_def bnd_def emit_def call_def
        rendering_def returns_def pr handler_def raise_def)
  have F: "filter is_lifecycle ?T =
      Scan ''LeScanner.scan_devs'' [PyNone, PyNone, PyNone] # rendering ?E ?r"
    by (simp add: M t lifecycle_normalization) (simp add: rendering_def)
  have P: "produced ?E ?T = [?r]"
    using produced_filter [of ?E ?T] unfolding F
    by (simp add: produced_def rendering_def sc returns_def pr)
  have R: "rendered ?T = [?r]"
    using rendered_filter [of ?T] unfolding F
    by (simp add: rendered_def rendering_def returns_def pr)
  have S: "stored ?T = []"
    using stored_filter [of ?T] unfolding F
    by (simp add: stored_def rendering_def returns_def pr)
  from P R S M show ?thesis by simp
qed

text \<open>
  Claim C9, as the code has it. In a run of \<^verbatim>\<open>main\<close> from an empty trace, with any answers
  of the collaborators: the results whose \<^verbatim>\<open>print()\<close> is called are exactly the results
  that the scan engines returned, and at most one is returned; the results whose
  \<^verbatim>\<open>store()\<close> is called are those of them whose \<^verbatim>\<open>print()\<close> returned. For each
  result, two empty lines, the header naming its type, the call of its \<^verbatim>\<open>print()\<close> and,
  when that returned, the call of its \<^verbatim>\<open>store()\<close> follow each other with nothing printed
  in between. The only engine operations whose value is kept are
  \<^verbatim>\<open>LeScanner.scan_devs\<close> and \<^verbatim>\<open>GattScanner.scan\<close>, and the mode dispatch yields a
  result in the LE device scan and GATT scan modes only.
\<close>

theorem result_rendered_once_stored_after:
  "(let T = trace (snd (main env (init fsys))) in
      rendered T = produced env T \<and>
      stored T = filter (\<lambda>x. returns (r_result_print env x)) (produced env T) \<and>
      length (produced env T) \<le> 1 \<and>
      (\<forall>x\<in>set (produced env T). sublist (rendering env x) (filter is_lifecycle T)) \<and>
      (\<forall>n vs. Scan n vs \<in> set T \<longrightarrow> n = ''LeScanner.scan_devs'' \<or> n = ''GattScanner.scan'')) \<and>
   (\<forall>args s x. fst (dispatch env args s) = Inr (Some x) \<longrightarrow> result_mode args)"
proof -
  let ?T = "trace (snd (main env (init fsys)))"
  from main_effect [of env] obtain tr a b where
    "?T = trace (init fsys) @ tr" and h: "filter is_lifecycle tr = a @ b"
    and a: "lifecycle_ok env a" and b: "b = [] \<or> b = [Print []]"
    unfolding effect_def by blast
  then have T: "?T = tr" by (simp add: init_def)
  from lifecycle_summary [OF h a b]
  have 1: "rendered ?T = produced env ?T \<and>
      stored ?T = filter (\<lambda>x. returns (r_result_print env x)) (produced env ?T) \<and>
      length (produced env ?T) \<le> 1 \<and>
      (\<forall>x\<in>set (produced env ?T). sublist (rendering env x) (filter is_lifecycle ?T)) \<and>
      (\<forall>n vs. Scan n vs \<in> set ?T \<longrightarrow> n = ''LeScanner.scan_devs'' \<or> n = ''GattScanner.scan'')"
    unfolding T rendered_filter stored_filter produced_filter scan_filter kept_scan_def .
  have 2: "\<forall>args s x. fst (dispatch env args s) = Inr (Some x) \<longrightarrow> result_mode args"
    using dispatch_no_result [of _ env] unfolding no_result_def by blast
  from 1 2 show ?thesis by (simp add: Let_def)
qed

theorem result_rendered_once_stored_after_witness:
  "produced calm_env (trace (snd (main calm_env (init [])))) =
     [\<lparr>rtype = ''LE'', content = ''devices''\<rparr>] \<and>
   returns (r_result_print calm_env \<lparr>rtype = ''LE'', content = ''devices''\<rparr>) \<and>
   rendered (trace (snd (main calm_env (init [])))) = [\<lparr>rtype = ''LE'', content = ''devices''\<rparr>] \<and>
   stored (trace (snd (main calm_env (init [])))) = [\<lparr>rtype = ''LE'', content = ''devices''\<rparr>] \<and>
   sublist [Print [], Print [], Print ''----------------LE Scan Result----------------'',
            ResultPrint \<lparr>rtype = ''LE'', content = ''devices''\<rparr>,
            ResultStore \<lparr>rtype = ''LE'', content = ''devices''\<rparr>]
     (filter is_lifecycle (trace (snd (main calm_env (init []))))) \<and>
   Scan ''LeScanner.scan_devs'' [PyNone, PyNone, PyNone] \<in> set (trace (snd (main calm_env (init [])))) \<and>
   fst (dispatch calm_env le_scan_args (init [])) = Inr (Some \<lparr>rtype = ''LE'', content = ''devices''\<rparr>) \<and>
   result_mode le_scan_args"
proof -
  let ?E = calm_env
  let ?r = "\<lparr>rtype = ''LE'', content = ''devices''\<rparr>"
  let ?T = "trace (snd (main calm_env (init [])))"
  have h: "host_ready ?E ''hci0''" by (simp add: concrete)
  have c: "controller_answers ?E" by (simp add: concrete)
  have st: "status_of ?E read_bd_addr = SUCCESS" by (simp add: concrete)
  have p: "r_parse_cmdline ?E = Inr le_scan_args" by (simp add: concrete)
  have e: "r_ext ?E ''LeScanner'' [PyStr ''hci0''] = Inr ()" by (simp add: concrete)
  have sc: "r_scan ?E ''LeScanner.scan_devs'' [PyNone, PyNone, PyNone] = Inr (Some ?r)"
    by (simp add: concrete)
  have pr: "r_result_print ?E ?r = Inr ()" "r_result_store ?E ?r = Inr ()"
    by (simp_all add: calm_env_def)
  from le_scan_session [OF h c st p e] sc obtain s2 devid where
    t: "trace s2 =
       [Ext ''parse_cmdline'' [],
        Log DEBUG (''parse_cmdline() returned'' @ [newline] @ ''    args: '' @
                   r_str_args ?E le_scan_args)] @
       normalization_events ?E ''hci0'' devid
         (status_of ?E inquiry_cancel) (status_of ?E exit_periodic_inquiry_mode)
         (status_of ?E le_set_advertising_enable)
         (status_of ?E (le_set_scan_enable False True))
         (status_of ?E (set_event_filter 0)) @ [HciClose]"
    and mt: "main_try ?E (init []) = show_result ?E (Some ?r) (s2\<lparr>trace := trace s2 @
                     [Ext ''LeScanner'' [PyStr ''hci0''],
                      Scan ''LeScanner.scan_devs'' [PyNone, PyNone, PyNone]]\<rparr>)"
    by auto
  have T: "?T = trace s2 @ [Ext ''LeScanner'' [PyStr ''hci0''],
                      Scan ''LeScanner.scan_devs'' [PyNone, PyNone, PyNone]] @ rendering ?E ?r"
    by (simp add: main_def try_except_def mt show_result_def seq_def bnd_def emit_def call_def
        rendering_def returns_def pr)
  have F: "filter is_lifecycle ?T =
      Scan ''LeScanner.scan_devs'' [PyNone, PyNone, PyNone] # rendering ?E ?r"
    by (simp add: T t lifecycle_normalization) (simp add: rendering_def)
  have P: "produced ?E ?T = [?r]"
    using produced_filter [of ?E ?T] unfolding F
    by (simp add: produced_def rendering_def sc returns_def pr)
  have S: "Scan ''LeScanner.scan_devs'' [PyNone, PyNone, PyNone] \<in> set ?T"
    by (simp add: T)
  have D: "fst (dispatch ?E le_scan_args (init [])) = Inr (Some ?r)"
    by (simp add: dispatch_def le_scan_args_def run ext_def scan_def calm_env_def)
  have R: "rendering ?E ?r = [Print [], Print [], Print ''----------------LE Scan Result----------------'',
            ResultPrint ?r, ResultStore ?r]"
    by (simp add: rendering_def calm_env_def returns_def)
  have Rt: "returns (r_result_print ?E ?r)" by (simp add: returns_def pr)
  have M: "result_mode le_scan_args"
    using result_rendered_once_stored_after [of calm_env "[]"] D by blast
  from result_rendered_once_stored_after [of calm_env "[]"] P S D R Rt M show ?thesis
    by (simp add: Let_def)
qed

end
